theory Spec2Isabelle
  imports Main
begin

section \<open>The reconciler of controllers/client\_controller.go\<close>

text \<open>
  \<^verbatim>\<open>ClientReconciler.Reconcile\<close> is one function that talks to an object store (the
  Kubernetes API, through the controller-runtime client), to builders and to a reload
  handler. The embedding keeps its order of statements: the store and the record of what
  the pass did (store calls with the context they were given, log lines, the sleep, the
  reload) are threaded through explicitly, and every early return is a branch.
\<close>

subsection \<open>Objects\<close>

type_synonym Duration = int

definition Second :: Duration where
  "Second = 1000000000"

text \<open>\<^verbatim>\<open>types.NamespacedName\<close>: the namespace first, then the name.\<close>

type_synonym NamespacedName = "string \<times> string"

record OwnerReference =
  APIVersion :: string
  Kind :: string
  RefName :: string
  RefUID :: string
  Controller :: "bool option"
  BlockOwnerDeletion :: "bool option"

record ObjectMeta =
  Name :: string
  Namespace :: string
  UID :: string
  OwnerReferences :: "OwnerReference list"

text \<open>
  \<^verbatim>\<open>frpv1alpha1.Client\<close> and \<^verbatim>\<open>frpv1alpha1.Upstream\<close>. Reconcile reads the metadata of
  the client and \<^verbatim>\<open>Spec.Client\<close> of an upstream; the other fields of the two specs are
  only passed on to \<^verbatim>\<open>models.NewConfig\<close>.
\<close>

record Client = ObjectMeta +
  ClientSpec :: "(string \<times> string) list"

record Upstream = ObjectMeta +
  SpecClient :: string
  UpstreamSpec :: "(string \<times> string) list"

text \<open>
  \<^verbatim>\<open>corev1.ConfigMap\<close>: \<^verbatim>\<open>Data\<close> is a Go map, which is nil (\<open>None\<close>) in the zero value;
  \<^verbatim>\<open>reflect.DeepEqual\<close> tells a nil map from an empty one, as \<open>None \<noteq> Some Map.empty\<close>.
\<close>

record ConfigMap = ObjectMeta +
  Data :: "(string \<rightharpoonup> string) option"

text \<open>\<^verbatim>\<open>corev1.PodPhase\<close> is a string type; \<^verbatim>\<open>corev1.PodRunning\<close> is \<^verbatim>\<open>"Running"\<close>.\<close>

type_synonym PodPhase = string

definition PodRunning :: PodPhase where
  "PodRunning = ''Running''"

record PodStatus =
  Phase :: PodPhase
  PodIP :: string

record Pod = ObjectMeta +
  Image :: string
  Status :: PodStatus

text \<open>
  \<^verbatim>\<open>models.Config\<close>: Reconcile writes \<^verbatim>\<open>Common.AdminAddress\<close>; the rest is filled in by
  \<^verbatim>\<open>models.NewConfig\<close>.
\<close>

record Common =
  AdminAddress :: string
  CommonSettings :: "(string \<times> string) list"

record Config =
  Common :: Common
  Rules :: "(string \<times> string) list list"

text \<open>\<^verbatim>\<open>ctrl.Result\<close>; \<^verbatim>\<open>ctrl.Result{}\<close> is its zero value.\<close>

record Result =
  Requeue :: bool
  RequeueAfter :: Duration

definition zero_Result :: Result where
  "zero_Result = \<lparr>Requeue = False, RequeueAfter = 0\<rparr>"

definition zero_ConfigMap :: ConfigMap where
  "zero_ConfigMap =
     \<lparr>Name = [], Namespace = [], UID = [], OwnerReferences = [], Data = None\<rparr>"

definition zero_Pod :: Pod where
  "zero_Pod =
     \<lparr>Name = [], Namespace = [], UID = [], OwnerReferences = [], Image = [],
      Status = \<lparr>Phase = [], PodIP = []\<rparr>\<rparr>"

text \<open>
  Errors. \<^verbatim>\<open>errors.IsNotFound\<close> recognises the status error the store returns for an
  absent object.
\<close>

datatype error = StatusNotFound string | StatusAlreadyExists string | GenericError string

fun IsNotFound :: "error \<Rightarrow> bool" where
  "IsNotFound (StatusNotFound _) = True"
| "IsNotFound _ = False"

subsection \<open>The store and the record of a pass\<close>

text \<open>
  A context is either \<^verbatim>\<open>context.TODO()\<close>, the empty context that is never cancelled, or a
  context of the caller, named by its cancellation signal.
\<close>

datatype "context" = TODO | Cancellable nat

datatype kind = ClientKind | UpstreamKind | ConfigMapKind | PodKind

datatype object = ConfigMapObject ConfigMap | PodObject Pod

datatype call = Get kind NamespacedName | ListAll kind | Create object

datatype event =
    Call "context" call
  | Log string
  | Sleep Duration
  | HandlerReload Config

record store =
  clients :: "NamespacedName \<rightharpoonup> Client"
  upstreams :: "Upstream list"
  configmaps :: "NamespacedName \<rightharpoonup> ConfigMap"
  pods :: "NamespacedName \<rightharpoonup> Pod"

record world =
  store :: store
  trace :: "event list"

text \<open>
  What surrounds the reconciler. The packages \<^verbatim>\<open>pkg/client/models\<close>, \<^verbatim>\<open>pkg/client/builder\<close>
  and \<^verbatim>\<open>pkg/client/handler\<close> are parameters: nothing is assumed of what they return.
  \<open>NewConfig\<close> stands for \<^verbatim>\<open>models.NewConfig(r.Client, _, _)\<close> with what it reads through
  the client held fixed. \<open>StoreFault\<close> lets a store call fail with an error that is not
  a not-found error; \<open>WhileSleeping\<close> is what the rest of the cluster does to the store
  during \<^verbatim>\<open>time.Sleep\<close>. \<open>Scheme\<close> is the group/version and kind under which
  \<^verbatim>\<open>r.Scheme\<close> knows the Client type, if it does.
\<close>

record env =
  NewConfig :: "Client \<Rightarrow> Upstream list \<Rightarrow> error + Config"
  ConfigurationBuilder_Build :: "Config \<Rightarrow> error + string"
  ConfigMapBuilder_Build :: "string \<Rightarrow> string \<Rightarrow> string \<Rightarrow> error + ConfigMap"
  PodBuilder_Build :: "string \<Rightarrow> string \<Rightarrow> string \<Rightarrow> error + Pod"
  Reload :: "Config \<Rightarrow> error option"
  Scheme :: "(string \<times> string) option"
  StoreFault :: "call \<Rightarrow> string option"
  WhileSleeping :: "store \<Rightarrow> store"

definition emit :: "event \<Rightarrow> world \<Rightarrow> world" where
  "emit e w = w\<lparr>trace := trace w @ [e]\<rparr>"

definition log_Info :: "string \<Rightarrow> world \<Rightarrow> world" where
  "log_Info msg w = emit (Log msg) w"

definition NamespacedName_of :: "'a ObjectMeta_scheme \<Rightarrow> NamespacedName" where
  "NamespacedName_of obj = (Namespace obj, Name obj)"

text \<open>
  The client's calls against a store that answers from its current content. A Get of an
  absent object is a not-found error and leaves the caller's object as it was; a Create
  of a present one is an already-exists error; a Create stores the object as given (how
  the store serves a created config map to a later pass is \<open>served\<close>, below).
\<close>

definition Get_Client ::
  "env \<Rightarrow> context \<Rightarrow> NamespacedName \<Rightarrow> world \<Rightarrow> (error + Client) \<times> world" where
  "Get_Client env ctx key w =
     (let w' = emit (Call ctx (Get ClientKind key)) w in
      case StoreFault env (Get ClientKind key) of
        Some msg \<Rightarrow> (Inl (GenericError msg), w')
      | None \<Rightarrow>
          (case clients (store w) key of
             None \<Rightarrow> (Inl (StatusNotFound (snd key)), w')
           | Some c \<Rightarrow> (Inr c, w')))"

definition List_Upstreams ::
  "env \<Rightarrow> context \<Rightarrow> world \<Rightarrow> (error + Upstream list) \<times> world" where
  "List_Upstreams env ctx w =
     (let w' = emit (Call ctx (ListAll UpstreamKind)) w in
      case StoreFault env (ListAll UpstreamKind) of
        Some msg \<Rightarrow> (Inl (GenericError msg), w')
      | None \<Rightarrow> (Inr (upstreams (store w)), w'))"

definition Get_ConfigMap ::
  "env \<Rightarrow> context \<Rightarrow> NamespacedName \<Rightarrow> world \<Rightarrow> (error + ConfigMap) \<times> world" where
  "Get_ConfigMap env ctx key w =
     (let w' = emit (Call ctx (Get ConfigMapKind key)) w in
      case StoreFault env (Get ConfigMapKind key) of
        Some msg \<Rightarrow> (Inl (GenericError msg), w')
      | None \<Rightarrow>
          (case configmaps (store w) key of
             None \<Rightarrow> (Inl (StatusNotFound (snd key)), w')
           | Some c \<Rightarrow> (Inr c, w')))"

definition Get_Pod ::
  "env \<Rightarrow> context \<Rightarrow> NamespacedName \<Rightarrow> world \<Rightarrow> (error + Pod) \<times> world" where
  "Get_Pod env ctx key w =
     (let w' = emit (Call ctx (Get PodKind key)) w in
      case StoreFault env (Get PodKind key) of
        Some msg \<Rightarrow> (Inl (GenericError msg), w')
      | None \<Rightarrow>
          (case pods (store w) key of
             None \<Rightarrow> (Inl (StatusNotFound (snd key)), w')
           | Some p \<Rightarrow> (Inr p, w')))"

definition Create_ConfigMap ::
  "env \<Rightarrow> context \<Rightarrow> ConfigMap \<Rightarrow> world \<Rightarrow> error option \<times> world" where
  "Create_ConfigMap env ctx cm w =
     (let w' = emit (Call ctx (Create (ConfigMapObject cm))) w in
      case StoreFault env (Create (ConfigMapObject cm)) of
        Some msg \<Rightarrow> (Some (GenericError msg), w')
      | None \<Rightarrow>
          (case configmaps (store w) (NamespacedName_of cm) of
             Some _ \<Rightarrow> (Some (StatusAlreadyExists (Name cm)), w')
           | None \<Rightarrow>
               (None,
                w'\<lparr>store := (store w)
                   \<lparr>configmaps := (configmaps (store w))(NamespacedName_of cm \<mapsto> cm)\<rparr>\<rparr>)))"

definition Create_Pod ::
  "env \<Rightarrow> context \<Rightarrow> Pod \<Rightarrow> world \<Rightarrow> error option \<times> world" where
  "Create_Pod env ctx p w =
     (let w' = emit (Call ctx (Create (PodObject p))) w in
      case StoreFault env (Create (PodObject p)) of
        Some msg \<Rightarrow> (Some (GenericError msg), w')
      | None \<Rightarrow>
          (case pods (store w) (NamespacedName_of p) of
             Some _ \<Rightarrow> (Some (StatusAlreadyExists (Name p)), w')
           | None \<Rightarrow>
               (None,
                w'\<lparr>store := (store w)
                   \<lparr>pods := (pods (store w))(NamespacedName_of p \<mapsto> p)\<rparr>\<rparr>)))"

definition time_Sleep :: "env \<Rightarrow> Duration \<Rightarrow> world \<Rightarrow> world" where
  "time_Sleep env d w = (emit (Sleep d) w)\<lparr>store := WhileSleeping env (store w)\<rparr>"

subsection \<open>controllerutil.SetControllerReference\<close>

text \<open>
  The library function of controller-runtime, as it is written there: the owner is
  validated (a namespaced owner needs the object in its own namespace), the owner's
  group/version and kind are looked up in the scheme, an object that another controller
  already owns is refused, and the new reference replaces the first reference to the same
  object or is appended.
\<close>

definition ParseGroupVersion :: "string \<Rightarrow> (string \<times> string) option" where
  "ParseGroupVersion gv =
     (if gv = [] \<or> gv = ''/'' then Some ([], [])
      else if count_list gv (CHR ''/'') = 0 then Some ([], gv)
      else if count_list gv (CHR ''/'') = 1 then
        Some (takeWhile (\<lambda>c. c \<noteq> CHR ''/'') gv, tl (dropWhile (\<lambda>c. c \<noteq> CHR ''/'') gv))
      else None)"

definition referSameObject :: "OwnerReference \<Rightarrow> OwnerReference \<Rightarrow> bool" where
  "referSameObject a b =
     (case ParseGroupVersion (APIVersion a) of
        None \<Rightarrow> False
      | Some aGV \<Rightarrow>
          (case ParseGroupVersion (APIVersion b) of
             None \<Rightarrow> False
           | Some bGV \<Rightarrow> fst aGV = fst bGV \<and> Kind a = Kind b \<and> RefName a = RefName b))"

definition GetControllerOf :: "OwnerReference list \<Rightarrow> OwnerReference option" where
  "GetControllerOf refs = find (\<lambda>r. Controller r = Some True) refs"

fun upsertOwnerRef :: "OwnerReference \<Rightarrow> OwnerReference list \<Rightarrow> OwnerReference list" where
  "upsertOwnerRef ref [] = [ref]"
| "upsertOwnerRef ref (r # rs) =
     (if referSameObject r ref then ref # rs else r # upsertOwnerRef ref rs)"

definition validateOwner :: "Client \<Rightarrow> 'a ObjectMeta_scheme \<Rightarrow> error option" where
  "validateOwner owner obj =
     (if Namespace owner \<noteq> [] then
        (if Namespace obj = [] then
           Some (GenericError ''cluster-scoped resource must not have a namespace-scoped owner'')
         else if Namespace owner \<noteq> Namespace obj then
           Some (GenericError ''cross-namespace owner references are disallowed'')
         else None)
      else None)"

definition SetControllerReference ::
  "Client \<Rightarrow> 'a ObjectMeta_scheme \<Rightarrow> (string \<times> string) option
     \<Rightarrow> error + 'a ObjectMeta_scheme" where
  "SetControllerReference owner controlled scheme =
     (case validateOwner owner controlled of
        Some err \<Rightarrow> Inl err
      | None \<Rightarrow>
          (case scheme of
             None \<Rightarrow> Inl (GenericError ''no kind is registered for the type'')
           | Some gvk \<Rightarrow>
               (let ref = \<lparr>APIVersion = fst gvk, Kind = snd gvk, RefName = Name owner,
                           RefUID = UID owner, Controller = Some True,
                           BlockOwnerDeletion = Some True\<rparr>
                in case GetControllerOf (OwnerReferences controlled) of
                     None \<Rightarrow>
                       Inr (controlled\<lparr>OwnerReferences :=
                              upsertOwnerRef ref (OwnerReferences controlled)\<rparr>)
                   | Some existing \<Rightarrow>
                       (if \<not> referSameObject existing ref then
                          Inl (GenericError ''Object is already owned by another controller'')
                        else
                          Inr (controlled\<lparr>OwnerReferences :=
                                 upsertOwnerRef ref (OwnerReferences controlled)\<rparr>)))))"

subsection \<open>Reconcile\<close>

text \<open>
  Lines 69 to 74: the loop over \<^verbatim>\<open>upstreams.Items\<close>, appending to \<^verbatim>\<open>filteredUpstreams\<close>.
\<close>

fun filterUpstreams :: "string \<Rightarrow> Upstream list \<Rightarrow> Upstream list \<Rightarrow> Upstream list" where
  "filterUpstreams clientName [] filteredUpstreams = filteredUpstreams"
| "filterUpstreams clientName (upstream # items) filteredUpstreams =
     filterUpstreams clientName items
       (if SpecClient upstream = clientName then filteredUpstreams @ [upstream]
        else filteredUpstreams)"

text \<open>Lines 54 to 74: the declaration and the upstreams that name it.\<close>

definition fetch ::
  "env \<Rightarrow> context \<Rightarrow> NamespacedName \<Rightarrow> world
     \<Rightarrow> (error + Client \<times> Upstream list) \<times> world" where
  "fetch env ctx req w0 =
     (let w1 = log_Info ''Start Client Reconciler'' w0 in
      case Get_Client env ctx req w1 of
        (Inl err, w2) \<Rightarrow> (Inl err, w2)
      | (Inr client, w2) \<Rightarrow>
          (case List_Upstreams env ctx w2 of
             (Inl err, w3) \<Rightarrow> (Inl err, w3)
           | (Inr items, w3) \<Rightarrow>
               (Inr (client, filterUpstreams (Name client) items []), w3)))"

text \<open>Lines 76 to 102: the domain config, the rendered document, the config map.\<close>

definition render ::
  "env \<Rightarrow> Client \<Rightarrow> Upstream list \<Rightarrow> world \<Rightarrow> (error + Config \<times> ConfigMap) \<times> world" where
  "render env client filteredUpstreams w0 =
     (case NewConfig env client filteredUpstreams of
        Inl err \<Rightarrow> (Inl err, w0)
      | Inr config \<Rightarrow>
          (let w1 = log_Info ''Build configuration'' w0 in
           case ConfigurationBuilder_Build env config of
             Inl err \<Rightarrow> (Inl err, w1)
           | Inr configuration \<Rightarrow>
               (let w2 = log_Info ''Build config map'' w1 in
                case ConfigMapBuilder_Build env configuration (Name client) (Namespace client) of
                  Inl err \<Rightarrow> (Inl err, w2)
                | Inr built \<Rightarrow>
                    (let w3 = log_Info ''set reference config map'' w2 in
                     case SetControllerReference client built (Scheme env) of
                       Inl err \<Rightarrow> (Inl err, w3)
                     | Inr configmap \<Rightarrow> (Inr (config, configmap), w3)))))"

definition fetch_and_render ::
  "env \<Rightarrow> context \<Rightarrow> NamespacedName \<Rightarrow> world
     \<Rightarrow> (error + Client \<times> Config \<times> ConfigMap) \<times> world" where
  "fetch_and_render env ctx req w0 =
     (case fetch env ctx req w0 of
        (Inl err, w1) \<Rightarrow> (Inl err, w1)
      | (Inr (client, filteredUpstreams), w1) \<Rightarrow>
          (case render env client filteredUpstreams w1 of
             (Inl err, w2) \<Rightarrow> (Inl err, w2)
           | (Inr (config, configmap), w2) \<Rightarrow> (Inr (client, config, configmap), w2)))"

text \<open>
  Lines 104 to 115: the config map is fetched into \<^verbatim>\<open>createdConfigMap\<close>, which stays the
  zero value when the Get fails, and created when the Get says not found.
\<close>

definition ensure_configmap ::
  "env \<Rightarrow> ConfigMap \<Rightarrow> world \<Rightarrow> (error + ConfigMap) \<times> world" where
  "ensure_configmap env configmap w0 =
     (let w1 = log_Info ''get config map'' w0 in
      case Get_ConfigMap env TODO (NamespacedName_of configmap) w1 of
        (Inr createdConfigMap, w2) \<Rightarrow> (Inr createdConfigMap, w2)
      | (Inl err, w2) \<Rightarrow>
          (if IsNotFound err then
             (let w3 = log_Info ''create config map'' w2 in
              case Create_ConfigMap env TODO configmap w3 of
                (Some err', w4) \<Rightarrow> (Inl err', w4)
              | (None, w4) \<Rightarrow> (Inr zero_ConfigMap, w4))
           else (Inl err, w2)))"

text \<open>Lines 117 to 130: the pod with its fixed image.\<close>

definition build_pod :: "env \<Rightarrow> Client \<Rightarrow> world \<Rightarrow> (error + Pod) \<times> world" where
  "build_pod env client w0 =
     (let w1 = log_Info ''Build pod'' w0 in
      case PodBuilder_Build env (Name client) (Namespace client) ''fatedier/frpc:v0.43.0'' of
        Inl err \<Rightarrow> (Inl err, w1)
      | Inr built \<Rightarrow>
          (let w2 = log_Info ''set reference pod'' w1 in
           case SetControllerReference client built (Scheme env) of
             Inl err \<Rightarrow> (Inl err, w2)
           | Inr pod \<Rightarrow> (Inr pod, w2)))"

text \<open>
  Lines 132 to 144: the pod is fetched into \<^verbatim>\<open>createdPod\<close>; when the Get says not found
  it is created and the pass sleeps ten seconds, \<^verbatim>\<open>createdPod\<close> staying the zero value.
\<close>

definition ensure_pod :: "env \<Rightarrow> Pod \<Rightarrow> world \<Rightarrow> (error + Pod) \<times> world" where
  "ensure_pod env pod w0 =
     (let w1 = log_Info ''get pod'' w0 in
      case Get_Pod env TODO (NamespacedName_of pod) w1 of
        (Inr createdPod, w2) \<Rightarrow> (Inr createdPod, w2)
      | (Inl err, w2) \<Rightarrow>
          (if IsNotFound err then
             (let w3 = log_Info ''create pod'' w2 in
              case Create_Pod env TODO pod w3 of
                (Some err', w4) \<Rightarrow> (Inl err', w4)
              | (None, w4) \<Rightarrow> (Inr zero_Pod, time_Sleep env (10 * Second) w4))
           else (Inl err, w2)))"

text \<open>Lines 146 to 159: the readiness gate, the comparison and the reload.\<close>

definition check_and_reload ::
  "env \<Rightarrow> Config \<Rightarrow> ConfigMap \<Rightarrow> ConfigMap \<Rightarrow> Pod \<Rightarrow> world
     \<Rightarrow> (Result \<times> error option) \<times> world" where
  "check_and_reload env config configmap createdConfigMap createdPod w0 =
     (let w1 = log_Info ''check pod running'' w0 in
      if Phase (Status createdPod) \<noteq> PodRunning then
        ((\<lparr>Requeue = False, RequeueAfter = 10 * Second\<rparr>, None), w1)
      else if Data createdConfigMap \<noteq> Data configmap then
        (let config' = config\<lparr>Common := (Common config)
                                 \<lparr>AdminAddress := PodIP (Status createdPod)\<rparr>\<rparr>;
             w2 = emit (HandlerReload config') w1
         in case Reload env config' of
              Some err \<Rightarrow> ((zero_Result, Some err), w2)
            | None \<Rightarrow> ((\<lparr>Requeue = False, RequeueAfter = 30 * Second\<rparr>, None), w2))
      else ((\<lparr>Requeue = False, RequeueAfter = 30 * Second\<rparr>, None), w1))"

text \<open>
  Lines 54 to 144 in one: what the pass holds when it reaches the readiness gate, namely
  the client, the config, the rendered config map, \<^verbatim>\<open>createdConfigMap\<close>, the built pod
  and \<^verbatim>\<open>createdPod\<close>.
\<close>

definition observe ::
  "env \<Rightarrow> context \<Rightarrow> NamespacedName \<Rightarrow> world
     \<Rightarrow> (error + Client \<times> Config \<times> ConfigMap \<times> ConfigMap \<times> Pod \<times> Pod) \<times> world" where
  "observe env ctx req w0 =
     (case fetch_and_render env ctx req w0 of
        (Inl err, w1) \<Rightarrow> (Inl err, w1)
      | (Inr (client, config, configmap), w1) \<Rightarrow>
          (case ensure_configmap env configmap w1 of
             (Inl err, w2) \<Rightarrow> (Inl err, w2)
           | (Inr createdConfigMap, w2) \<Rightarrow>
               (case build_pod env client w2 of
                  (Inl err, w3) \<Rightarrow> (Inl err, w3)
                | (Inr pod, w3) \<Rightarrow>
                    (case ensure_pod env pod w3 of
                       (Inl err, w4) \<Rightarrow> (Inl err, w4)
                     | (Inr createdPod, w4) \<Rightarrow>
                         (Inr (client, config, configmap, createdConfigMap, pod, createdPod),
                          w4)))))"

text \<open>The whole function: every error before the gate returns \<^verbatim>\<open>ctrl.Result{}, err\<close>.\<close>

definition Reconcile ::
  "env \<Rightarrow> context \<Rightarrow> NamespacedName \<Rightarrow> world \<Rightarrow> (Result \<times> error option) \<times> world" where
  "Reconcile env ctx req w0 =
     (case observe env ctx req w0 of
        (Inl err, w1) \<Rightarrow> ((zero_Result, Some err), w1)
      | (Inr (client, config, configmap, createdConfigMap, pod, createdPod), w1) \<Rightarrow>
          check_and_reload env config configmap createdConfigMap createdPod w1)"

text \<open>What a trace holds: the reload calls and the objects of the Create calls.\<close>

fun reload_calls :: "event list \<Rightarrow> Config list" where
  "reload_calls [] = []"
| "reload_calls (HandlerReload c # es) = c # reload_calls es"
| "reload_calls (_ # es) = reload_calls es"

fun create_calls :: "event list \<Rightarrow> object list" where
  "create_calls [] = []"
| "create_calls (Call _ (Create obj) # es) = obj # create_calls es"
| "create_calls (_ # es) = create_calls es"

fun store_contexts :: "event list \<Rightarrow> context list" where
  "store_contexts [] = []"
| "store_contexts (Call ctx _ # es) = ctx # store_contexts es"
| "store_contexts (_ # es) = store_contexts es"

subsection \<open>A small cluster to run the pass on\<close>

text \<open>
  The declaration \<^verbatim>\<open>default/web\<close>, three upstreams of which two name \<^verbatim>\<open>web\<close> (one of them
  in another namespace), builders that keep the name and namespace they are given, a
  store that fails no call, and a store with or without the config map and the pod of the
  declaration.
\<close>

definition demo_client :: Client where
  "demo_client =
     \<lparr>Name = ''web'', Namespace = ''default'', UID = ''c-1'', OwnerReferences = [],
      ClientSpec = [(''server'', ''frps'')]\<rparr>"

definition demo_upstreams :: "Upstream list" where
  "demo_upstreams =
     [\<lparr>Name = ''ssh'', Namespace = ''default'', UID = ''u-1'', OwnerReferences = [],
       SpecClient = ''web'', UpstreamSpec = [(''port'', ''22'')]\<rparr>,
      \<lparr>Name = ''dns'', Namespace = ''default'', UID = ''u-2'', OwnerReferences = [],
       SpecClient = ''api'', UpstreamSpec = [(''port'', ''53'')]\<rparr>,
      \<lparr>Name = ''db'', Namespace = ''other'', UID = ''u-3'', OwnerReferences = [],
       SpecClient = ''web'', UpstreamSpec = [(''port'', ''5432'')]\<rparr>]"

definition demo_env :: env where
  "demo_env =
     \<lparr>NewConfig = (\<lambda>c us. Inr \<lparr>Common = \<lparr>AdminAddress = [], CommonSettings = ClientSpec c\<rparr>,
                                   Rules = map UpstreamSpec us\<rparr>),
      ConfigurationBuilder_Build = (\<lambda>cfg. Inr (concat (map snd (concat (Rules cfg))))),
      ConfigMapBuilder_Build = (\<lambda>doc n ns. Inr \<lparr>Name = n, Namespace = ns, UID = [],
                                   OwnerReferences = [], Data = Some [''frpc.ini'' \<mapsto> doc]\<rparr>),
      PodBuilder_Build = (\<lambda>n ns img. Inr \<lparr>Name = n, Namespace = ns, UID = [],
                                   OwnerReferences = [], Image = img,
                                   Status = \<lparr>Phase = [], PodIP = []\<rparr>\<rparr>),
      Reload = (\<lambda>cfg. None),
      Scheme = Some (''frp/v1alpha1'', ''Client''),
      StoreFault = (\<lambda>c. None),
      WhileSleeping = (\<lambda>s. s)\<rparr>"

definition demo_ref :: OwnerReference where
  "demo_ref = \<lparr>APIVersion = ''frp/v1alpha1'', Kind = ''Client'', RefName = ''web'',
                RefUID = ''c-1'', Controller = Some True, BlockOwnerDeletion = Some True\<rparr>"

definition demo_config :: Config where
  "demo_config = \<lparr>Common = \<lparr>AdminAddress = [], CommonSettings = [(''server'', ''frps'')]\<rparr>,
                   Rules = [[(''port'', ''22'')], [(''port'', ''5432'')]]\<rparr>"

definition demo_configmap :: "string \<Rightarrow> ConfigMap" where
  "demo_configmap doc =
     \<lparr>Name = ''web'', Namespace = ''default'', UID = [], OwnerReferences = [demo_ref],
      Data = Some [''frpc.ini'' \<mapsto> doc]\<rparr>"

definition demo_pod :: "PodPhase \<Rightarrow> string \<Rightarrow> Pod" where
  "demo_pod phase ip =
     \<lparr>Name = ''web'', Namespace = ''default'', UID = [], OwnerReferences = [demo_ref],
      Image = ''fatedier/frpc:v0.43.0'', Status = \<lparr>Phase = phase, PodIP = ip\<rparr>\<rparr>"

definition demo_store :: "ConfigMap option \<Rightarrow> Pod option \<Rightarrow> store" where
  "demo_store cm p =
     \<lparr>clients = [(''default'', ''web'') \<mapsto> demo_client],
      upstreams = demo_upstreams,
      configmaps = (\<lambda>k. if k = (''default'', ''web'') then cm else None),
      pods = (\<lambda>k. if k = (''default'', ''web'') then p else None)\<rparr>"

text \<open>A cluster that starts every pod while the pass sleeps.\<close>

definition demo_kubelet :: "store \<Rightarrow> store" where
  "demo_kubelet s =
     s\<lparr>pods := (\<lambda>k. map_option
                  (\<lambda>p. p\<lparr>Status := \<lparr>Phase = ''Running'', PodIP = ''10.0.0.7''\<rparr>\<rparr>) (pods s k))\<rparr>"

text \<open>
  What the store serves of a config map it holds. The API leaves an empty \<^verbatim>\<open>Data\<close> map out
  of the stored form (the field is \<^verbatim>\<open>omitempty\<close>), so a config map created with an empty
  map that is not nil is read back with nil \<^verbatim>\<open>Data\<close>; every other content is read back
  as it was written. Within one pass nothing created is read again, so this shows
  between passes only.
\<close>

definition decoded :: "ConfigMap \<Rightarrow> ConfigMap" where
  "decoded cm = cm\<lparr>Data := (if Data cm = Some Map.empty then None else Data cm)\<rparr>"

definition served :: "store \<Rightarrow> store" where
  "served s = s\<lparr>configmaps := (\<lambda>k. map_option decoded (configmaps s k))\<rparr>"

text \<open>
  Two passes in succession on one declaration: the second starts from the store the first
  left, as the store serves it, and each has a record of its own. The store calls that
  fail may differ from one pass to the next (\<open>faults\<close> are those of the second pass);
  everything else is the same for both.
\<close>

definition first_pass :: "env \<Rightarrow> context \<Rightarrow> NamespacedName \<Rightarrow> store
    \<Rightarrow> (Result \<times> error option) \<times> world" where
  "first_pass env ctx req s = Reconcile env ctx req \<lparr>store = s, trace = []\<rparr>"

definition second_pass :: "env \<Rightarrow> (call \<Rightarrow> string option) \<Rightarrow> context \<Rightarrow> NamespacedName
    \<Rightarrow> store \<Rightarrow> (Result \<times> error option) \<times> world" where
  "second_pass env faults ctx req s =
     Reconcile (env\<lparr>StoreFault := faults\<rparr>) ctx req
       \<lparr>store = served (store (snd (first_pass env ctx req s))), trace = []\<rparr>"

section \<open>The parts of a pass\<close>

subsection \<open>The loop, and what a record holds\<close>

lemma filterUpstreams_filter:
  "filterUpstreams n items acc = acc @ filter (\<lambda>u. SpecClient u = n) items"
  by (induction items arbitrary: acc) simp_all

lemma reload_calls_append: "reload_calls (xs @ ys) = reload_calls xs @ reload_calls ys"
  by (induction xs rule: reload_calls.induct) simp_all

lemma create_calls_append: "create_calls (xs @ ys) = create_calls xs @ create_calls ys"
  by (induction xs rule: create_calls.induct) simp_all

lemma emit_simps: "store (emit e w) = store w" "trace (emit e w) = trace w @ [e]"
  by (simp_all add: emit_def)

lemma log_Info_simps: "store (log_Info m w) = store w" "trace (log_Info m w) = trace w @ [Log m]"
  by (simp_all add: log_Info_def emit_def)

subsection \<open>The controller reference\<close>

lemma upsert_controller:
  assumes "Controller ref = Some True"
      and "case GetControllerOf refs of None \<Rightarrow> True | Some e \<Rightarrow> referSameObject e ref"
  shows "GetControllerOf (upsertOwnerRef ref refs) = Some ref"
  using assms
proof (induction refs)
  case Nil
  then show ?case by (simp add: GetControllerOf_def)
next
  case (Cons r rs)
  show ?case
  proof (cases "referSameObject r ref")
    case True
    with Cons.prems show ?thesis by (simp add: GetControllerOf_def)
  next
    case False
    with Cons.prems have nc: "Controller r \<noteq> Some True"
      by (auto simp: GetControllerOf_def)
    with Cons.prems have "case GetControllerOf rs of None \<Rightarrow> True | Some e \<Rightarrow> referSameObject e ref"
      by (simp add: GetControllerOf_def)
    with Cons.IH Cons.prems(1) have "GetControllerOf (upsertOwnerRef ref rs) = Some ref" by blast
    with False nc show ?thesis by (simp add: GetControllerOf_def)
  qed
qed

lemma SetControllerReference_controller:
  assumes "SetControllerReference owner obj scheme = Inr obj'"
  shows "\<exists>gvk. scheme = Some gvk \<and>
           GetControllerOf (OwnerReferences obj') =
             Some \<lparr>APIVersion = fst gvk, Kind = snd gvk, RefName = Name owner,
                   RefUID = UID owner, Controller = Some True, BlockOwnerDeletion = Some True\<rparr>"
  using assms
  by (auto simp: SetControllerReference_def Let_def upsert_controller
           split: option.splits if_splits)

lemma SetControllerReference_meta:
  assumes "SetControllerReference owner obj scheme = Inr obj'"
  shows "Name obj' = Name obj" "Namespace obj' = Namespace obj"
  using assms
  by (auto simp: SetControllerReference_def Let_def split: option.splits if_splits)

lemma controller_of_owner:
  assumes "SetControllerReference owner obj scheme = Inr obj'"
  shows "map_option (\<lambda>r. (RefName r, RefUID r, Controller r))
           (GetControllerOf (OwnerReferences obj')) = Some (Name owner, UID owner, Some True)"
  using SetControllerReference_controller [OF assms] by auto

subsection \<open>What each part does to the store and to the record\<close>

lemma fetch_effect:
  "store (snd (fetch env ctx req w)) = store w"
  "reload_calls (trace (snd (fetch env ctx req w))) = reload_calls (trace w)"
  "create_calls (trace (snd (fetch env ctx req w))) = create_calls (trace w)"
  by (simp_all add: fetch_def Get_Client_def List_Upstreams_def Let_def emit_simps
        log_Info_simps reload_calls_append create_calls_append split: option.splits)

lemma render_effect:
  "store (snd (render env client ups w)) = store w"
  "reload_calls (trace (snd (render env client ups w))) = reload_calls (trace w)"
  "create_calls (trace (snd (render env client ups w))) = create_calls (trace w)"
  by (simp_all add: render_def Let_def log_Info_simps reload_calls_append
        create_calls_append split: sum.splits)

lemma fetch_and_render_effect:
  "store (snd (fetch_and_render env ctx req w)) = store w"
  "reload_calls (trace (snd (fetch_and_render env ctx req w))) = reload_calls (trace w)"
  "create_calls (trace (snd (fetch_and_render env ctx req w))) = create_calls (trace w)"
  unfolding fetch_and_render_def
  using fetch_effect [of env ctx req w] render_effect
  by (auto split: prod.splits sum.splits) (metis snd_conv)+

lemma build_pod_effect:
  "store (snd (build_pod env client w)) = store w"
  "reload_calls (trace (snd (build_pod env client w))) = reload_calls (trace w)"
  "create_calls (trace (snd (build_pod env client w))) = create_calls (trace w)"
  by (simp_all add: build_pod_def Let_def log_Info_simps reload_calls_append
        create_calls_append split: sum.splits)

lemma ensure_configmap_reloads:
  "reload_calls (trace (snd (ensure_configmap env cm w))) = reload_calls (trace w)"
  by (simp add: ensure_configmap_def Get_ConfigMap_def Create_ConfigMap_def Let_def emit_simps
        log_Info_simps reload_calls_append split: option.splits)

lemma ensure_pod_reloads:
  "reload_calls (trace (snd (ensure_pod env pod w))) = reload_calls (trace w)"
  by (simp add: ensure_pod_def Get_Pod_def Create_Pod_def Let_def emit_simps time_Sleep_def
        log_Info_simps reload_calls_append split: option.splits)

lemma observe_reloads:
  "reload_calls (trace (snd (observe env ctx req w))) = reload_calls (trace w)"
proof -
  have a: "reload_calls (trace (snd (fetch_and_render env ctx req w))) = reload_calls (trace w)"
    by (rule fetch_and_render_effect)
  show ?thesis
    unfolding observe_def
    using a ensure_configmap_reloads build_pod_effect(2) ensure_pod_reloads
    by (auto split: prod.splits sum.splits) (metis snd_conv)+
qed

lemma observe_InrD:
  assumes "observe env ctx req w0 =
             (Inr (client, config, configmap, createdConfigMap, pod, createdPod), w)"
  shows "\<exists>w1 w2 w3.
           fetch_and_render env ctx req w0 = (Inr (client, config, configmap), w1) \<and>
           ensure_configmap env configmap w1 = (Inr createdConfigMap, w2) \<and>
           build_pod env client w2 = (Inr pod, w3) \<and>
           ensure_pod env pod w3 = (Inr createdPod, w)"
  using assms unfolding observe_def
  by (auto split: prod.splits sum.splits)

lemma ensure_configmap_found:
  assumes "ensure_configmap env cm w = (Inr c, w')"
      and "configmaps (store w) (NamespacedName_of cm) = Some stored"
  shows "c = stored" "store w' = store w"
    "trace w' = trace w @ [Log ''get config map'',
                           Call TODO (Get ConfigMapKind (NamespacedName_of cm))]"
  using assms
  by (auto simp: ensure_configmap_def Get_ConfigMap_def Create_ConfigMap_def Let_def emit_simps
        log_Info_simps split: option.splits if_splits)

lemma ensure_configmap_absent:
  assumes "ensure_configmap env cm w = (Inr c, w')"
      and "configmaps (store w) (NamespacedName_of cm) = None"
  shows "c = zero_ConfigMap"
    "store w' = (store w)\<lparr>configmaps := (configmaps (store w))(NamespacedName_of cm \<mapsto> cm)\<rparr>"
    "trace w' = trace w @ [Log ''get config map'',
                           Call TODO (Get ConfigMapKind (NamespacedName_of cm)),
                           Log ''create config map'',
                           Call TODO (Create (ConfigMapObject cm))]"
  using assms
  by (auto simp: ensure_configmap_def Get_ConfigMap_def Create_ConfigMap_def Let_def emit_simps
        log_Info_simps emit_def split: option.splits if_splits)

lemma ensure_pod_found:
  assumes "ensure_pod env pod w = (Inr p, w')"
      and "pods (store w) (NamespacedName_of pod) = Some stored"
  shows "p = stored" "store w' = store w"
    "trace w' = trace w @ [Log ''get pod'', Call TODO (Get PodKind (NamespacedName_of pod))]"
  using assms
  by (auto simp: ensure_pod_def Get_Pod_def Create_Pod_def Let_def emit_simps
        log_Info_simps split: option.splits if_splits)

lemma ensure_pod_absent:
  assumes "ensure_pod env pod w = (Inr p, w')"
      and "pods (store w) (NamespacedName_of pod) = None"
  shows "p = zero_Pod"
    "store w' = WhileSleeping env
        ((store w)\<lparr>pods := (pods (store w))(NamespacedName_of pod \<mapsto> pod)\<rparr>)"
    "trace w' = trace w @ [Log ''get pod'', Call TODO (Get PodKind (NamespacedName_of pod)),
                           Log ''create pod'', Call TODO (Create (PodObject pod)),
                           Sleep (10 * Second)]"
  using assms
  by (auto simp: ensure_pod_def Get_Pod_def Create_Pod_def Let_def emit_simps time_Sleep_def
        log_Info_simps emit_def split: option.splits if_splits)

lemma ensure_configmap_pods:
  "pods (store (snd (ensure_configmap env cm w))) = pods (store w)"
  by (simp add: ensure_configmap_def Get_ConfigMap_def Create_ConfigMap_def Let_def emit_simps
        log_Info_simps split: option.splits)

lemmas demo_defs = demo_client_def demo_upstreams_def demo_env_def demo_ref_def
  demo_config_def demo_configmap_def demo_pod_def demo_store_def

lemmas model_defs = observe_def fetch_and_render_def fetch_def render_def ensure_configmap_def
  build_pod_def ensure_pod_def Get_Client_def List_Upstreams_def Get_ConfigMap_def Get_Pod_def
  Create_ConfigMap_def Create_Pod_def time_Sleep_def emit_def log_Info_def Let_def
  SetControllerReference_def validateOwner_def GetControllerOf_def NamespacedName_of_def

lemma demo_fetch_and_render:
  "fst (fetch_and_render demo_env ctx (''default'', ''web'') \<lparr>store = demo_store cm p, trace = t\<rparr>)
     = Inr (demo_client, demo_config, demo_configmap ''225432'')"
  by (simp add: model_defs demo_defs)

lemma demo_observe_found:
  "fst (observe demo_env ctx (''default'', ''web'')
          \<lparr>store = demo_store (Some cm) (Some p), trace = t\<rparr>)
     = Inr (demo_client, demo_config, demo_configmap ''225432'', cm, demo_pod [] [], p)"
  by (simp add: model_defs demo_defs)

lemma observe_pair:
  assumes "fst (observe env ctx req w0) = Inr x"
  shows "observe env ctx req w0 = (Inr x, snd (observe env ctx req w0))"
  using assms by (metis prod.collapse)

lemma check_and_reload_store:
  "store (snd (check_and_reload env config cm ccm cp w)) = store w"
  by (simp add: check_and_reload_def Let_def log_Info_simps emit_simps split: option.splits)

lemma observe_createdConfigMap:
  assumes "observe env ctx req w0 =
             (Inr (client, config, configmap, createdConfigMap, pod, createdPod), w)"
  shows "createdConfigMap =
           (case configmaps (store w0) (NamespacedName_of configmap) of
              Some stored \<Rightarrow> stored | None \<Rightarrow> zero_ConfigMap)"
proof -
  from observe_InrD [OF assms] obtain w1 w2 where
    a: "fetch_and_render env ctx req w0 = (Inr (client, config, configmap), w1)" and
    b: "ensure_configmap env configmap w1 = (Inr createdConfigMap, w2)" by blast
  have s1: "store w1 = store w0" using fetch_and_render_effect(1) [of env ctx req w0] a by simp
  show ?thesis
  proof (cases "configmaps (store w0) (NamespacedName_of configmap)")
    case None
    with ensure_configmap_absent(1) [OF b] s1 show ?thesis by simp
  next
    case (Some stored)
    with ensure_configmap_found(1) [OF b] s1 show ?thesis by simp
  qed
qed

lemma observe_createdPod:
  assumes "observe env ctx req w0 =
             (Inr (client, config, configmap, createdConfigMap, pod, createdPod), w)"
  shows "createdPod =
           (case pods (store w0) (NamespacedName_of pod) of
              Some stored \<Rightarrow> stored | None \<Rightarrow> zero_Pod)"
proof -
  from observe_InrD [OF assms] obtain w1 w2 w3 where
    a: "fetch_and_render env ctx req w0 = (Inr (client, config, configmap), w1)" and
    b: "ensure_configmap env configmap w1 = (Inr createdConfigMap, w2)" and
    c: "build_pod env client w2 = (Inr pod, w3)" and
    d: "ensure_pod env pod w3 = (Inr createdPod, w)" by blast
  have "store w1 = store w0" using fetch_and_render_effect(1) [of env ctx req w0] a by simp
  moreover have "pods (store w2) = pods (store w1)"
    using ensure_configmap_pods [of env configmap w1] b by simp
  moreover have "store w3 = store w2" using build_pod_effect(1) [of env client w2] c by simp
  ultimately have s3: "pods (store w3) = pods (store w0)" by simp
  show ?thesis
  proof (cases "pods (store w0) (NamespacedName_of pod)")
    case None
    with ensure_pod_absent(1) [OF d] s3 show ?thesis by simp
  next
    case (Some stored)
    with ensure_pod_found(1) [OF d] s3 show ?thesis by simp
  qed
qed

lemma Reconcile_observed:
  assumes "observe env ctx req w0 =
             (Inr (client, config, configmap, createdConfigMap, pod, createdPod), w)"
  shows "Reconcile env ctx req w0 =
           check_and_reload env config configmap createdConfigMap createdPod w"
  using assms by (simp add: Reconcile_def)

lemma zero_Pod_not_Running: "Phase (Status zero_Pod) \<noteq> PodRunning"
  by (simp add: zero_Pod_def PodRunning_def)

lemma observe_creates_configmap:
  assumes "observe env ctx req w0 =
             (Inr (client, config, configmap, createdConfigMap, pod, createdPod), w)"
      and "configmaps (store w0) (NamespacedName_of configmap) = None"
      and "pods (store w0) (NamespacedName_of pod) = Some stored"
  shows "store w = (store w0)\<lparr>configmaps :=
                     (configmaps (store w0))(NamespacedName_of configmap \<mapsto> configmap)\<rparr>"
    and "create_calls (trace w) = create_calls (trace w0) @ [ConfigMapObject configmap]"
proof -
  from observe_InrD [OF assms(1)] obtain w1 w2 w3 where
    a: "fetch_and_render env ctx req w0 = (Inr (client, config, configmap), w1)" and
    b: "ensure_configmap env configmap w1 = (Inr createdConfigMap, w2)" and
    c: "build_pod env client w2 = (Inr pod, w3)" and
    d: "ensure_pod env pod w3 = (Inr createdPod, w)" by blast
  have s1: "store w1 = store w0" "create_calls (trace w1) = create_calls (trace w0)"
    using fetch_and_render_effect [of env ctx req w0] a by simp_all
  have s2: "store w2 = (store w0)\<lparr>configmaps :=
                     (configmaps (store w0))(NamespacedName_of configmap \<mapsto> configmap)\<rparr>"
    "create_calls (trace w2) = create_calls (trace w0) @ [ConfigMapObject configmap]"
    using ensure_configmap_absent(2,3) [OF b] s1 assms(2) by (simp_all add: create_calls_append)
  have s3: "store w3 = store w2" "create_calls (trace w3) = create_calls (trace w2)"
    using build_pod_effect [of env client w2] c by simp_all
  have p3: "pods (store w3) (NamespacedName_of pod) = Some stored"
    using s3 s2 assms(3) by simp
  show "store w = (store w0)\<lparr>configmaps :=
                     (configmaps (store w0))(NamespacedName_of configmap \<mapsto> configmap)\<rparr>"
    using ensure_pod_found(2) [OF d p3] s3 s2 by simp
  show "create_calls (trace w) = create_calls (trace w0) @ [ConfigMapObject configmap]"
    using ensure_pod_found(3) [OF d p3] s3 s2 by (simp add: create_calls_append)
qed

lemma demo_observe_nocm:
  "fst (observe demo_env ctx (''default'', ''web'')
          \<lparr>store = demo_store None (Some p), trace = t\<rparr>)
     = Inr (demo_client, demo_config, demo_configmap ''225432'', zero_ConfigMap,
            demo_pod [] [], p)"
  by (simp add: model_defs demo_defs)

lemma fetch_and_render_pair:
  assumes "fst (fetch_and_render env ctx req w0) = Inr x"
  shows "fetch_and_render env ctx req w0 = (Inr x, snd (fetch_and_render env ctx req w0))"
  using assms by (metis prod.collapse)

lemma fetch_and_render_owner:
  assumes "fetch_and_render env ctx req w0 = (Inr (client, config, configmap), w1)"
  shows "\<exists>built. SetControllerReference client built (Scheme env) = Inr configmap"
  using assms
  by (auto simp: fetch_and_render_def render_def Let_def split: prod.splits sum.splits)

lemma ensure_configmap_Inr:
  assumes "ensure_configmap env cm w = (Inr c, w')"
  shows "store w' =
           (case configmaps (store w) (NamespacedName_of cm) of
              None \<Rightarrow> (store w)\<lparr>configmaps :=
                          (configmaps (store w))(NamespacedName_of cm \<mapsto> cm)\<rparr>
            | Some stored \<Rightarrow> store w)"
    and "create_calls (trace w') =
           create_calls (trace w) @
             (case configmaps (store w) (NamespacedName_of cm) of
                None \<Rightarrow> [ConfigMapObject cm] | Some stored \<Rightarrow> [])"
proof -
  show "store w' =
           (case configmaps (store w) (NamespacedName_of cm) of
              None \<Rightarrow> (store w)\<lparr>configmaps :=
                          (configmaps (store w))(NamespacedName_of cm \<mapsto> cm)\<rparr>
            | Some stored \<Rightarrow> store w)"
    using ensure_configmap_absent(2) [OF assms] ensure_configmap_found(2) [OF assms]
    by (cases "configmaps (store w) (NamespacedName_of cm)") simp_all
  show "create_calls (trace w') =
           create_calls (trace w) @
             (case configmaps (store w) (NamespacedName_of cm) of
                None \<Rightarrow> [ConfigMapObject cm] | Some stored \<Rightarrow> [])"
    using ensure_configmap_absent(3) [OF assms] ensure_configmap_found(3) [OF assms]
    by (cases "configmaps (store w) (NamespacedName_of cm)")
       (simp_all add: create_calls_append)
qed

lemma observe_creates_pod:
  assumes "observe env ctx req w0 =
             (Inr (client, config, configmap, createdConfigMap, pod, createdPod), w)"
      and "pods (store w0) (NamespacedName_of pod) = None"
  shows "store w =
           WhileSleeping env
             ((case configmaps (store w0) (NamespacedName_of configmap) of
                 None \<Rightarrow> (store w0)\<lparr>configmaps :=
                             (configmaps (store w0))(NamespacedName_of configmap \<mapsto> configmap)\<rparr>
               | Some stored \<Rightarrow> store w0)
              \<lparr>pods := (pods (store w0))(NamespacedName_of pod \<mapsto> pod)\<rparr>)"
    and "create_calls (trace w) =
           create_calls (trace w0) @
             (case configmaps (store w0) (NamespacedName_of configmap) of
                None \<Rightarrow> [ConfigMapObject configmap] | Some stored \<Rightarrow> []) @
             [PodObject pod]"
    and "\<exists>t. trace w = t @ [Call TODO (Create (PodObject pod)), Sleep (10 * Second)]"
proof -
  from observe_InrD [OF assms(1)] obtain w1 w2 w3 where
    a: "fetch_and_render env ctx req w0 = (Inr (client, config, configmap), w1)" and
    b: "ensure_configmap env configmap w1 = (Inr createdConfigMap, w2)" and
    c: "build_pod env client w2 = (Inr pod, w3)" and
    d: "ensure_pod env pod w3 = (Inr createdPod, w)" by blast
  have s1: "store w1 = store w0" "create_calls (trace w1) = create_calls (trace w0)"
    using fetch_and_render_effect [of env ctx req w0] a by simp_all
  note s2 = ensure_configmap_Inr [OF b]
  have s3: "store w3 = store w2" "create_calls (trace w3) = create_calls (trace w2)"
    using build_pod_effect [of env client w2] c by simp_all
  have "pods (store w2) = pods (store w1)"
    using ensure_configmap_pods [of env configmap w1] b by simp
  with s3 s1 assms(2) have p3: "pods (store w3) (NamespacedName_of pod) = None"
    and p3': "pods (store w2) = pods (store w0)" by simp_all
  note e = ensure_pod_absent [OF d p3]
  show "store w =
           WhileSleeping env
             ((case configmaps (store w0) (NamespacedName_of configmap) of
                 None \<Rightarrow> (store w0)\<lparr>configmaps :=
                             (configmaps (store w0))(NamespacedName_of configmap \<mapsto> configmap)\<rparr>
               | Some stored \<Rightarrow> store w0)
              \<lparr>pods := (pods (store w0))(NamespacedName_of pod \<mapsto> pod)\<rparr>)"
    using e(2) s3(1) s2(1) s1(1) p3' by (simp split: option.splits)
  show "create_calls (trace w) =
           create_calls (trace w0) @
             (case configmaps (store w0) (NamespacedName_of configmap) of
                None \<Rightarrow> [ConfigMapObject configmap] | Some stored \<Rightarrow> []) @
             [PodObject pod]"
    using e(3) s3(2) s2(2) s1 by (simp add: create_calls_append)
  show "\<exists>t. trace w = t @ [Call TODO (Create (PodObject pod)), Sleep (10 * Second)]"
    using e(3) by simp
qed

lemma ensure_configmap_creates:
  assumes "configmaps (store w) (NamespacedName_of cm) = None"
      and "StoreFault env (Get ConfigMapKind (NamespacedName_of cm)) = None"
      and "StoreFault env (Create (ConfigMapObject cm)) = None"
  shows "ensure_configmap env cm w =
           (Inr zero_ConfigMap,
            \<lparr>store = (store w)\<lparr>configmaps :=
                        (configmaps (store w))(NamespacedName_of cm \<mapsto> cm)\<rparr>,
             trace = trace w @ [Log ''get config map'',
                                Call TODO (Get ConfigMapKind (NamespacedName_of cm)),
                                Log ''create config map'',
                                Call TODO (Create (ConfigMapObject cm))]\<rparr>)"
  using assms
  by (simp add: ensure_configmap_def Get_ConfigMap_def Create_ConfigMap_def Let_def
        log_Info_def emit_def)

lemma ensure_pod_creates:
  assumes "pods (store w) (NamespacedName_of pod) = None"
      and "StoreFault env (Get PodKind (NamespacedName_of pod)) = None"
      and "StoreFault env (Create (PodObject pod)) = None"
  shows "ensure_pod env pod w =
           (Inr zero_Pod,
            \<lparr>store = WhileSleeping env
                        ((store w)\<lparr>pods := (pods (store w))(NamespacedName_of pod \<mapsto> pod)\<rparr>),
             trace = trace w @ [Log ''get pod'',
                                Call TODO (Get PodKind (NamespacedName_of pod)),
                                Log ''create pod'',
                                Call TODO (Create (PodObject pod)),
                                Sleep (10 * Second)]\<rparr>)"
  using assms
  by (simp add: ensure_pod_def Get_Pod_def Create_Pod_def Let_def time_Sleep_def
        log_Info_def emit_def)

lemma build_pod_builds:
  assumes "PodBuilder_Build env (Name client) (Namespace client) ''fatedier/frpc:v0.43.0''
             = Inr built"
      and "SetControllerReference client built (Scheme env) = Inr pod"
  shows "build_pod env client w =
           (Inr pod, \<lparr>store = store w,
                      trace = trace w @ [Log ''Build pod'', Log ''set reference pod'']\<rparr>)"
  using assms
  by (simp add: build_pod_def Let_def log_Info_def emit_def)

lemma ensure_configmap_keeps:
  assumes "configmaps (store w) k = Some stored"
  shows "configmaps (store (snd (ensure_configmap env cm w))) k = Some stored"
  using assms
  by (auto simp: ensure_configmap_def Get_ConfigMap_def Create_ConfigMap_def Let_def emit_simps
        log_Info_simps split: option.splits)

lemma ensure_pod_configmaps:
  assumes "\<forall>s. configmaps (WhileSleeping env s) = configmaps s"
  shows "configmaps (store (snd (ensure_pod env pod w))) = configmaps (store w)"
  using assms
  by (simp add: ensure_pod_def Get_Pod_def Create_Pod_def Let_def emit_simps time_Sleep_def
        log_Info_simps split: option.splits)

lemma observe_keeps_configmap:
  assumes "configmaps (store w0) k = Some stored"
      and "\<forall>s. configmaps (WhileSleeping env s) = configmaps s"
  shows "configmaps (store (snd (observe env ctx req w0))) k = Some stored"
proof -
  obtain r1 w1 where a: "fetch_and_render env ctx req w0 = (r1, w1)"
    by (cases "fetch_and_render env ctx req w0")
  have s1: "configmaps (store w1) k = Some stored"
    using fetch_and_render_effect(1) [of env ctx req w0] a assms(1) by simp
  show ?thesis
  proof (cases r1)
    case (Inl err)
    with a s1 show ?thesis by (simp add: observe_def)
  next
    case (Inr x)
    obtain client config configmap where x: "x = (client, config, configmap)"
      by (cases x)
    obtain r2 w2 where b: "ensure_configmap env configmap w1 = (r2, w2)"
      by (cases "ensure_configmap env configmap w1")
    have s2: "configmaps (store w2) k = Some stored"
      using ensure_configmap_keeps [OF s1, of env configmap] b by simp
    show ?thesis
    proof (cases r2)
      case (Inl err)
      with a Inr x b s2 show ?thesis by (simp add: observe_def)
    next
      case r2: (Inr createdConfigMap)
      obtain r3 w3 where c: "build_pod env client w2 = (r3, w3)"
        by (cases "build_pod env client w2")
      have s3: "configmaps (store w3) k = Some stored"
        using build_pod_effect(1) [of env client w2] c s2 by simp
      show ?thesis
      proof (cases r3)
        case (Inl err)
        with a Inr x b r2 c s3 show ?thesis by (simp add: observe_def)
      next
        case r3: (Inr pod)
        obtain r4 w4 where d: "ensure_pod env pod w3 = (r4, w4)"
          by (cases "ensure_pod env pod w3")
        have s4: "configmaps (store w4) k = Some stored"
          using ensure_pod_configmaps [OF assms(2), of pod w3] d s3 by simp
        from a Inr x b r2 c r3 d s4 show ?thesis
          by (cases r4) (simp_all add: observe_def)
      qed
    qed
  qed
qed

lemma Reconcile_store:
  "store (snd (Reconcile env ctx req w0)) = store (snd (observe env ctx req w0))"
  by (simp add: Reconcile_def check_and_reload_store split: prod.splits sum.splits)

lemma check_and_reload_reloads:
  "(reload_calls (trace (snd (check_and_reload env config cm ccm cp w))) \<noteq> reload_calls (trace w))
     = (Phase (Status cp) = PodRunning \<and> Data ccm \<noteq> Data cm)"
  by (simp add: check_and_reload_def Let_def log_Info_simps emit_simps reload_calls_append
        split: option.splits)

subsection \<open>Where a pass can end\<close>

lemma observe_cases [case_names fetch_failed configmap_failed build_failed pod_failed observed]:
  obtains
    err w1 where
      "fetch_and_render env ctx req w0 = (Inl err, w1)"
      "observe env ctx req w0 = (Inl err, w1)"
  | client config configmap w1 err w2 where
      "fetch_and_render env ctx req w0 = (Inr (client, config, configmap), w1)"
      "ensure_configmap env configmap w1 = (Inl err, w2)"
      "observe env ctx req w0 = (Inl err, w2)"
  | client config configmap w1 createdConfigMap w2 err w3 where
      "fetch_and_render env ctx req w0 = (Inr (client, config, configmap), w1)"
      "ensure_configmap env configmap w1 = (Inr createdConfigMap, w2)"
      "build_pod env client w2 = (Inl err, w3)"
      "observe env ctx req w0 = (Inl err, w3)"
  | client config configmap w1 createdConfigMap w2 pod w3 err w4 where
      "fetch_and_render env ctx req w0 = (Inr (client, config, configmap), w1)"
      "ensure_configmap env configmap w1 = (Inr createdConfigMap, w2)"
      "build_pod env client w2 = (Inr pod, w3)"
      "ensure_pod env pod w3 = (Inl err, w4)"
      "observe env ctx req w0 = (Inl err, w4)"
  | client config configmap w1 createdConfigMap w2 pod w3 createdPod w4 where
      "fetch_and_render env ctx req w0 = (Inr (client, config, configmap), w1)"
      "ensure_configmap env configmap w1 = (Inr createdConfigMap, w2)"
      "build_pod env client w2 = (Inr pod, w3)"
      "ensure_pod env pod w3 = (Inr createdPod, w4)"
      "observe env ctx req w0 =
         (Inr (client, config, configmap, createdConfigMap, pod, createdPod), w4)"
proof -
  obtain r1 w1 where a: "fetch_and_render env ctx req w0 = (r1, w1)"
    by (cases "fetch_and_render env ctx req w0")
  show thesis
  proof (cases r1)
    case (Inl err)
    with a that(1) show thesis by (simp add: observe_def)
  next
    case (Inr x)
    obtain client config configmap where x: "x = (client, config, configmap)"
      by (cases x)
    obtain r2 w2 where b: "ensure_configmap env configmap w1 = (r2, w2)"
      by (cases "ensure_configmap env configmap w1")
    show thesis
    proof (cases r2)
      case (Inl err)
      with a Inr x b that(2) show thesis by (simp add: observe_def)
    next
      case r2: (Inr createdConfigMap)
      obtain r3 w3 where c: "build_pod env client w2 = (r3, w3)"
        by (cases "build_pod env client w2")
      show thesis
      proof (cases r3)
        case (Inl err)
        with a Inr x b r2 c that(3) show thesis by (simp add: observe_def)
      next
        case r3: (Inr pod)
        obtain r4 w4 where d: "ensure_pod env pod w3 = (r4, w4)"
          by (cases "ensure_pod env pod w3")
        show thesis
        proof (cases r4)
          case (Inl err)
          with a Inr x b r2 c r3 d that(4) show thesis by (simp add: observe_def)
        next
          case r4: (Inr createdPod)
          with a Inr x b r2 c r3 d that(5) show thesis by (simp add: observe_def)
        qed
      qed
    qed
  qed
qed

subsection \<open>Two passes in a row\<close>

lemma render_value: "fst (render env client ups w) = fst (render env client ups w')"
  by (simp add: render_def Let_def split: sum.splits)

lemma build_pod_value: "fst (build_pod env client w) = fst (build_pod env client w')"
  by (simp add: build_pod_def Let_def split: sum.splits)

lemma ensure_configmap_early:
  assumes "StoreFault env (Get ConfigMapKind (NamespacedName_of cm)) \<noteq> None \<or>
           configmaps (store w) (NamespacedName_of cm) \<noteq> None"
  shows "create_calls (trace (snd (ensure_configmap env cm w))) = create_calls (trace w)"
  using assms
  by (auto simp: ensure_configmap_def Get_ConfigMap_def Let_def emit_simps log_Info_simps
        create_calls_append split: option.splits)

lemma ensure_pod_early:
  assumes "StoreFault env (Get PodKind (NamespacedName_of pod)) \<noteq> None \<or>
           pods (store w) (NamespacedName_of pod) \<noteq> None"
  shows "create_calls (trace (snd (ensure_pod env pod w))) = create_calls (trace w)"
  using assms
  by (auto simp: ensure_pod_def Get_Pod_def Let_def emit_simps log_Info_simps
        create_calls_append split: option.splits)

lemma ensure_pod_store:
  assumes "\<forall>s. WhileSleeping env s = s"
  shows "clients (store (snd (ensure_pod env pod w))) = clients (store w)"
    "upstreams (store (snd (ensure_pod env pod w))) = upstreams (store w)"
    "configmaps (store (snd (ensure_pod env pod w))) = configmaps (store w)"
    "pods (store w) k \<noteq> None \<Longrightarrow> pods (store (snd (ensure_pod env pod w))) k \<noteq> None"
  using assms
  by (auto simp: ensure_pod_def Get_Pod_def Create_Pod_def Let_def emit_simps time_Sleep_def
        log_Info_simps split: option.splits)

lemma ensure_configmap_store:
  shows "clients (store (snd (ensure_configmap env cm w))) = clients (store w)"
    "upstreams (store (snd (ensure_configmap env cm w))) = upstreams (store w)"
    "configmaps (store w) k \<noteq> None \<Longrightarrow>
       configmaps (store (snd (ensure_configmap env cm w))) k \<noteq> None"
  by (auto simp: ensure_configmap_def Get_ConfigMap_def Create_ConfigMap_def Let_def emit_simps
        log_Info_simps split: option.splits)

lemma ensure_configmap_idle:
  "store (snd (ensure_configmap env cm w)) = store w \<or>
   create_calls (trace (snd (ensure_configmap env cm w))) =
     create_calls (trace w) @ [ConfigMapObject cm]"
  by (auto simp: ensure_configmap_def Get_ConfigMap_def Create_ConfigMap_def Let_def emit_simps
        log_Info_simps create_calls_append emit_def split: option.splits)

lemma ensure_pod_idle:
  "store (snd (ensure_pod env pod w)) = store w \<or>
   create_calls (trace (snd (ensure_pod env pod w))) =
     create_calls (trace w) @ [PodObject pod]"
  by (auto simp: ensure_pod_def Get_Pod_def Create_Pod_def Let_def emit_simps time_Sleep_def
        log_Info_simps create_calls_append emit_def split: option.splits)

lemma ensure_configmap_grows:
  "\<exists>cs. create_calls (trace (snd (ensure_configmap env cm w))) = create_calls (trace w) @ cs"
  by (auto simp: ensure_configmap_def Get_ConfigMap_def Create_ConfigMap_def Let_def emit_simps
        log_Info_simps create_calls_append emit_def split: option.splits)

lemma ensure_pod_grows:
  "\<exists>cs. create_calls (trace (snd (ensure_pod env pod w))) = create_calls (trace w) @ cs"
  by (auto simp: ensure_pod_def Get_Pod_def Create_Pod_def Let_def emit_simps time_Sleep_def
        log_Info_simps create_calls_append emit_def split: option.splits)

lemma observe_idle:
  assumes "create_calls (trace (snd (observe env ctx req w0))) = create_calls (trace w0)"
  shows "store (snd (observe env ctx req w0)) = store w0"
proof (cases rule: observe_cases [of env ctx req w0])
  case (fetch_failed err w1)
  then show ?thesis using fetch_and_render_effect(1) [of env ctx req w0] by simp
next
  case (configmap_failed client config configmap w1 err w2)
  have s1: "store w1 = store w0" "create_calls (trace w1) = create_calls (trace w0)"
    using fetch_and_render_effect [of env ctx req w0] configmap_failed(1) by simp_all
  show ?thesis
    using ensure_configmap_idle [of env configmap w1] configmap_failed(2,3) s1 assms by auto
next
  case (build_failed client config configmap w1 createdConfigMap w2 err w3)
  have s1: "store w1 = store w0" "create_calls (trace w1) = create_calls (trace w0)"
    using fetch_and_render_effect [of env ctx req w0] build_failed(1) by simp_all
  have s3: "store w3 = store w2" "create_calls (trace w3) = create_calls (trace w2)"
    using build_pod_effect [of env client w2] build_failed(3) by simp_all
  show ?thesis
    using ensure_configmap_idle [of env configmap w1] build_failed(2,4) s1 s3 assms by auto
next
  case (pod_failed client config configmap w1 createdConfigMap w2 pod w3 err w4)
  have s1: "store w1 = store w0" "create_calls (trace w1) = create_calls (trace w0)"
    using fetch_and_render_effect [of env ctx req w0] pod_failed(1) by simp_all
  have s3: "store w3 = store w2" "create_calls (trace w3) = create_calls (trace w2)"
    using build_pod_effect [of env client w2] pod_failed(3) by simp_all
  from ensure_configmap_grows [of env configmap w1] pod_failed(2) s1 obtain cs where
    cs: "create_calls (trace w2) = create_calls (trace w0) @ cs" by auto
  from ensure_pod_grows [of env pod w3] pod_failed(4) s3 obtain cs' where
    cs': "create_calls (trace w4) = create_calls (trace w2) @ cs'" by auto
  from cs cs' assms pod_failed(5) have e: "cs = []" "cs' = []" by simp_all
  show ?thesis
    using ensure_configmap_idle [of env configmap w1] ensure_pod_idle [of env pod w3]
      pod_failed(2,4,5) s1 s3 cs cs' e by auto
next
  case (observed client config configmap w1 createdConfigMap w2 pod w3 createdPod w4)
  have s1: "store w1 = store w0" "create_calls (trace w1) = create_calls (trace w0)"
    using fetch_and_render_effect [of env ctx req w0] observed(1) by simp_all
  have s3: "store w3 = store w2" "create_calls (trace w3) = create_calls (trace w2)"
    using build_pod_effect [of env client w2] observed(3) by simp_all
  from ensure_configmap_grows [of env configmap w1] observed(2) s1 obtain cs where
    cs: "create_calls (trace w2) = create_calls (trace w0) @ cs" by auto
  from ensure_pod_grows [of env pod w3] observed(4) s3 obtain cs' where
    cs': "create_calls (trace w4) = create_calls (trace w2) @ cs'" by auto
  from cs cs' assms observed(5) have e: "cs = []" "cs' = []" by simp_all
  show ?thesis
    using ensure_configmap_idle [of env configmap w1] ensure_pod_idle [of env pod w3]
      observed(2,4,5) s1 s3 cs cs' e by auto
qed

lemma Reconcile_creates:
  "create_calls (trace (snd (Reconcile env ctx req w0))) =
     create_calls (trace (snd (observe env ctx req w0)))"
  by (simp add: Reconcile_def check_and_reload_def Let_def log_Info_simps emit_simps
        create_calls_append split: prod.splits sum.splits option.splits)

lemma ensure_configmap_Inr_fault:
  assumes "ensure_configmap env cm w = (Inr c, w')"
  shows "StoreFault env (Get ConfigMapKind (NamespacedName_of cm)) = None"
  using assms
  by (auto simp: ensure_configmap_def Get_ConfigMap_def Let_def split: option.splits if_splits)

lemma observe_settled:
  assumes "\<And>client config configmap.
             fst (fetch_and_render env ctx req w0) = Inr (client, config, configmap) \<Longrightarrow>
             StoreFault env (Get ConfigMapKind (NamespacedName_of configmap)) \<noteq> None \<or>
             configmaps (store w0) (NamespacedName_of configmap) \<noteq> None"
      and "\<And>client config configmap pod w.
             fst (fetch_and_render env ctx req w0) = Inr (client, config, configmap) \<Longrightarrow>
             StoreFault env (Get ConfigMapKind (NamespacedName_of configmap)) = None \<Longrightarrow>
             fst (build_pod env client w) = Inr pod \<Longrightarrow>
             StoreFault env (Get PodKind (NamespacedName_of pod)) \<noteq> None \<or>
             pods (store w0) (NamespacedName_of pod) \<noteq> None"
  shows "create_calls (trace (snd (observe env ctx req w0))) = create_calls (trace w0)"
proof (cases rule: observe_cases [of env ctx req w0])
  case (fetch_failed err w1)
  then show ?thesis using fetch_and_render_effect(3) [of env ctx req w0] by simp
next
  case (configmap_failed client config configmap w1 err w2)
  have s1: "store w1 = store w0" "create_calls (trace w1) = create_calls (trace w0)"
    using fetch_and_render_effect [of env ctx req w0] configmap_failed(1) by simp_all
  have "create_calls (trace w2) = create_calls (trace w1)"
    using ensure_configmap_early [of env configmap w1] assms(1) [of client config configmap]
      configmap_failed(1,2) s1 by simp
  with s1 configmap_failed(3) show ?thesis by simp
next
  case (build_failed client config configmap w1 createdConfigMap w2 err w3)
  have s1: "store w1 = store w0" "create_calls (trace w1) = create_calls (trace w0)"
    using fetch_and_render_effect [of env ctx req w0] build_failed(1) by simp_all
  have "create_calls (trace w2) = create_calls (trace w1)"
    using ensure_configmap_early [of env configmap w1] assms(1) [of client config configmap]
      build_failed(1,2) s1 by simp
  moreover have "create_calls (trace w3) = create_calls (trace w2)"
    using build_pod_effect(3) [of env client w2] build_failed(3) by simp
  ultimately show ?thesis using s1 build_failed(4) by simp
next
  case (pod_failed client config configmap w1 createdConfigMap w2 pod w3 err w4)
  have s1: "store w1 = store w0" "create_calls (trace w1) = create_calls (trace w0)"
    using fetch_and_render_effect [of env ctx req w0] pod_failed(1) by simp_all
  have c2: "create_calls (trace w2) = create_calls (trace w1)"
    using ensure_configmap_early [of env configmap w1] assms(1) [of client config configmap]
      pod_failed(1,2) s1 by simp
  have p2: "pods (store w2) = pods (store w1)"
    using ensure_configmap_pods [of env configmap w1] pod_failed(2) by simp
  have s3: "store w3 = store w2" "create_calls (trace w3) = create_calls (trace w2)"
    using build_pod_effect [of env client w2] pod_failed(3) by simp_all
  have "create_calls (trace w4) = create_calls (trace w3)"
    using ensure_pod_early [of env pod w3] assms(2) [of client config configmap w2 pod]
      ensure_configmap_Inr_fault [OF pod_failed(2)] pod_failed(1,3,4) s1 p2 s3 by simp
  with c2 s1 s3 pod_failed(5) show ?thesis by simp
next
  case (observed client config configmap w1 createdConfigMap w2 pod w3 createdPod w4)
  have s1: "store w1 = store w0" "create_calls (trace w1) = create_calls (trace w0)"
    using fetch_and_render_effect [of env ctx req w0] observed(1) by simp_all
  have c2: "create_calls (trace w2) = create_calls (trace w1)"
    using ensure_configmap_early [of env configmap w1] assms(1) [of client config configmap]
      observed(1,2) s1 by simp
  have p2: "pods (store w2) = pods (store w1)"
    using ensure_configmap_pods [of env configmap w1] observed(2) by simp
  have s3: "store w3 = store w2" "create_calls (trace w3) = create_calls (trace w2)"
    using build_pod_effect [of env client w2] observed(3) by simp_all
  have "create_calls (trace w4) = create_calls (trace w3)"
    using ensure_pod_early [of env pod w3] assms(2) [of client config configmap w2 pod]
      ensure_configmap_Inr_fault [OF observed(2)] observed(1,3,4) s1 p2 s3 by simp
  with c2 s1 s3 observed(5) show ?thesis by simp
qed

lemma observe_declarations:
  assumes "\<forall>s. WhileSleeping env s = s"
  shows "clients (store (snd (observe env ctx req w0))) = clients (store w0) \<and>
         upstreams (store (snd (observe env ctx req w0))) = upstreams (store w0)"
proof (cases rule: observe_cases [of env ctx req w0])
  case (fetch_failed err w1)
  then show ?thesis using fetch_and_render_effect(1) [of env ctx req w0] by simp
next
  case (configmap_failed client config configmap w1 err w2)
  then show ?thesis
    using fetch_and_render_effect(1) [of env ctx req w0]
      ensure_configmap_store(1,2) [of env configmap w1] by simp
next
  case (build_failed client config configmap w1 createdConfigMap w2 err w3)
  then show ?thesis
    using fetch_and_render_effect(1) [of env ctx req w0]
      ensure_configmap_store(1,2) [of env configmap w1]
      build_pod_effect(1) [of env client w2] by simp
next
  case (pod_failed client config configmap w1 createdConfigMap w2 pod w3 err w4)
  then show ?thesis
    using fetch_and_render_effect(1) [of env ctx req w0]
      ensure_configmap_store(1,2) [of env configmap w1]
      build_pod_effect(1) [of env client w2]
      ensure_pod_store(1,2) [OF assms, of pod w3] by simp
next
  case (observed client config configmap w1 createdConfigMap w2 pod w3 createdPod w4)
  then show ?thesis
    using fetch_and_render_effect(1) [of env ctx req w0]
      ensure_configmap_store(1,2) [of env configmap w1]
      build_pod_effect(1) [of env client w2]
      ensure_pod_store(1,2) [OF assms, of pod w3] by simp
qed

lemma ensure_pod_creates_no_configmap:
  assumes "ConfigMapObject c \<in> set (create_calls (trace (snd (ensure_pod env pod w))))"
  shows "ConfigMapObject c \<in> set (create_calls (trace w))"
  using assms
  by (auto simp: ensure_pod_def Get_Pod_def Create_Pod_def Let_def emit_simps time_Sleep_def
        log_Info_simps create_calls_append emit_def split: option.splits if_splits)

lemma Reconcile_reloadsD:
  assumes "reload_calls (trace (snd (Reconcile env ctx req w))) \<noteq> reload_calls (trace w)"
  shows "\<exists>client config configmap createdConfigMap pod createdPod w'.
           observe env ctx req w =
             (Inr (client, config, configmap, createdConfigMap, pod, createdPod), w') \<and>
           Phase (Status createdPod) = PodRunning \<and>
           Data createdConfigMap \<noteq> Data configmap"
proof (cases "observe env ctx req w")
  case (Pair r w')
  have rl: "reload_calls (trace w') = reload_calls (trace w)"
    using observe_reloads [of env ctx req w] Pair by simp
  show ?thesis
  proof (cases r)
    case (Inl err)
    with Pair rl assms show ?thesis by (simp add: Reconcile_def)
  next
    case (Inr x)
    obtain client config configmap createdConfigMap pod createdPod where
      x: "x = (client, config, configmap, createdConfigMap, pod, createdPod)"
      by (cases x)
    have obs: "observe env ctx req w =
        (Inr (client, config, configmap, createdConfigMap, pod, createdPod), w')"
      using Pair Inr x by simp
    show ?thesis
      using check_and_reload_reloads [of env config configmap createdConfigMap createdPod w']
        assms rl obs by (simp add: Reconcile_observed [OF obs])
  qed
qed

lemma served_simps:
  "clients (served s) = clients s" "upstreams (served s) = upstreams s"
  "pods (served s) = pods s"
  "configmaps (served s) k = map_option decoded (configmaps s k)"
  by (simp_all add: served_def)

lemma decoded_Data: "Data cm \<noteq> Some Map.empty \<Longrightarrow> Data (decoded cm) = Data cm"
  by (simp add: decoded_def)

lemma fetch_char:
  "fst (fetch env ctx req w) =
     (case StoreFault env (Get ClientKind req) of
        Some msg \<Rightarrow> Inl (GenericError msg)
      | None \<Rightarrow>
          (case clients (store w) req of
             None \<Rightarrow> Inl (StatusNotFound (snd req))
           | Some c \<Rightarrow>
               (case StoreFault env (ListAll UpstreamKind) of
                  Some msg \<Rightarrow> Inl (GenericError msg)
                | None \<Rightarrow>
                    Inr (c, filter (\<lambda>U. SpecClient U = Name c) (upstreams (store w))))))"
  by (simp add: fetch_def Get_Client_def List_Upstreams_def Let_def emit_simps log_Info_simps
        filterUpstreams_filter split: option.splits)

lemma fetch_calls:
  "Call ctx (Get ClientKind req) \<in> set (trace (snd (fetch env ctx req w)))"
  "StoreFault env (Get ClientKind req) = None \<Longrightarrow> clients (store w) req \<noteq> None \<Longrightarrow>
     Call ctx (ListAll UpstreamKind) \<in> set (trace (snd (fetch env ctx req w)))"
  by (auto simp: fetch_def Get_Client_def List_Upstreams_def Let_def emit_simps log_Info_simps
        split: option.splits)

lemma render_faults:
  "fst (render (env\<lparr>StoreFault := f\<rparr>) client ups w) = fst (render env client ups w')"
  by (simp add: render_def Let_def split: sum.splits)

lemma build_pod_faults:
  "fst (build_pod (env\<lparr>StoreFault := f\<rparr>) client w) = fst (build_pod env client w')"
  by (simp add: build_pod_def Let_def split: sum.splits)

lemma render_grows: "set (trace w) \<subseteq> set (trace (snd (render env client ups w)))"
  by (auto simp: render_def Let_def log_Info_simps split: sum.splits)

lemma build_pod_grows: "set (trace w) \<subseteq> set (trace (snd (build_pod env client w)))"
  by (auto simp: build_pod_def Let_def log_Info_simps split: sum.splits)

lemma ensure_configmap_grows_set:
  "set (trace w) \<subseteq> set (trace (snd (ensure_configmap env cm w)))"
  by (auto simp: ensure_configmap_def Get_ConfigMap_def Create_ConfigMap_def Let_def emit_simps
        log_Info_simps emit_def split: option.splits)

lemma ensure_pod_grows_set:
  "set (trace w) \<subseteq> set (trace (snd (ensure_pod env pod w)))"
  by (auto simp: ensure_pod_def Get_Pod_def Create_Pod_def Let_def emit_simps time_Sleep_def
        log_Info_simps emit_def split: option.splits)

lemma fetch_and_render_char:
  "fst (fetch_and_render env ctx req w) =
     (case fst (fetch env ctx req w) of
        Inl err \<Rightarrow> Inl err
      | Inr (client, ups) \<Rightarrow>
          (case fst (render env client ups w) of
             Inl err \<Rightarrow> Inl err
           | Inr (config, configmap) \<Rightarrow> Inr (client, config, configmap)))"
proof -
  obtain r1 w1 where a: "fetch env ctx req w = (r1, w1)" by (cases "fetch env ctx req w")
  show ?thesis
  proof (cases r1)
    case (Inl err)
    with a show ?thesis by (simp add: fetch_and_render_def)
  next
    case (Inr x)
    obtain client ups where x: "x = (client, ups)" by (cases x)
    have "fst (render env client ups w1) = fst (render env client ups w)"
      by (rule render_value)
    with a Inr x show ?thesis
      by (cases "render env client ups w1")
         (auto simp: fetch_and_render_def split: sum.splits)
  qed
qed

lemma fetch_and_render_grows:
  "set (trace (snd (fetch env ctx req w))) \<subseteq> set (trace (snd (fetch_and_render env ctx req w)))"
proof -
  obtain r1 w1 where a: "fetch env ctx req w = (r1, w1)" by (cases "fetch env ctx req w")
  show ?thesis
  proof (cases r1)
    case (Inl err)
    with a show ?thesis by (simp add: fetch_and_render_def)
  next
    case (Inr x)
    obtain client ups where x: "x = (client, ups)" by (cases x)
    obtain r2 w2 where b: "render env client ups w1 = (r2, w2)"
      by (cases "render env client ups w1")
    have "set (trace w1) \<subseteq> set (trace w2)"
      using render_grows [of w1 env client ups] b by simp
    with a Inr x b show ?thesis
      by (cases r2) (auto simp: fetch_and_render_def)
  qed
qed

lemma fetch_and_render_Inr_faults:
  assumes "fst (fetch_and_render env ctx req w) = Inr (client, config, configmap)"
  shows "StoreFault env (Get ClientKind req) = None"
    and "StoreFault env (ListAll UpstreamKind) = None"
    and "clients (store w) req = Some client"
  using assms
  by (auto simp: fetch_and_render_char fetch_char split: option.splits sum.splits prod.splits)

lemma fetch_and_render_second:
  assumes "fst (fetch_and_render (env\<lparr>StoreFault := f\<rparr>) ctx req w') = Inr x"
      and "clients (store w') = clients (store w)" "upstreams (store w') = upstreams (store w)"
      and "StoreFault env (Get ClientKind req) = None"
      and "StoreFault env (ListAll UpstreamKind) = None"
  shows "fst (fetch_and_render env ctx req w) = Inr x"
proof -
  have r: "fst (render (env\<lparr>StoreFault := f\<rparr>) c ups w') = fst (render env c ups w)" for c ups
    by (rule render_faults)
  show ?thesis
    using assms
    by (simp add: fetch_and_render_char fetch_char r split: option.splits)
qed

lemma observe_grows:
  "set (trace (snd (fetch_and_render env ctx req w0))) \<subseteq> set (trace (snd (observe env ctx req w0)))"
proof (cases rule: observe_cases [of env ctx req w0])
  case (fetch_failed err w1)
  then show ?thesis by simp
next
  case (configmap_failed client config configmap w1 err w2)
  then show ?thesis using ensure_configmap_grows_set [of w1 env configmap] by simp
next
  case (build_failed client config configmap w1 createdConfigMap w2 err w3)
  then show ?thesis
    using ensure_configmap_grows_set [of w1 env configmap] build_pod_grows [of w2 env client]
    by auto
next
  case (pod_failed client config configmap w1 createdConfigMap w2 pod w3 err w4)
  then show ?thesis
    using ensure_configmap_grows_set [of w1 env configmap] build_pod_grows [of w2 env client]
      ensure_pod_grows_set [of w3 env pod]
    by auto
next
  case (observed client config configmap w1 createdConfigMap w2 pod w3 createdPod w4)
  then show ?thesis
    using ensure_configmap_grows_set [of w1 env configmap] build_pod_grows [of w2 env client]
      ensure_pod_grows_set [of w3 env pod]
    by auto
qed

lemma Reconcile_grows:
  "set (trace (snd (observe env ctx req w0))) \<subseteq> set (trace (snd (Reconcile env ctx req w0)))"
  by (auto simp: Reconcile_def check_and_reload_def Let_def log_Info_simps emit_simps
        split: prod.splits sum.splits option.splits)

lemma observe_reads_declaration:
  "Call ctx (Get ClientKind req) \<in> set (trace (snd (observe env ctx req w0)))"
  "StoreFault env (Get ClientKind req) = None \<Longrightarrow> clients (store w0) req \<noteq> None \<Longrightarrow>
     Call ctx (ListAll UpstreamKind) \<in> set (trace (snd (observe env ctx req w0)))"
  using fetch_calls(1) [of ctx req env w0] fetch_calls(2) [of env req w0 ctx]
    fetch_and_render_grows [of env ctx req w0] observe_grows [of env ctx req w0]
  by blast+

lemma ensure_configmap_calls:
  "Call TODO (Get ConfigMapKind (NamespacedName_of cm))
     \<in> set (trace (snd (ensure_configmap env cm w)))"
  "StoreFault env (Get ConfigMapKind (NamespacedName_of cm)) = None \<Longrightarrow>
   configmaps (store w) (NamespacedName_of cm) = None \<Longrightarrow>
     Call TODO (Create (ConfigMapObject cm)) \<in> set (trace (snd (ensure_configmap env cm w)))"
  by (auto simp: ensure_configmap_def Get_ConfigMap_def Create_ConfigMap_def Let_def emit_simps
        log_Info_simps emit_def split: option.splits)

lemma ensure_configmap_done:
  assumes "StoreFault env (Get ConfigMapKind (NamespacedName_of cm)) = None"
      and "configmaps (store w) (NamespacedName_of cm) \<noteq> None \<or>
           StoreFault env (Create (ConfigMapObject cm)) = None"
  shows "\<exists>c. fst (ensure_configmap env cm w) = Inr c"
    and "configmaps (store (snd (ensure_configmap env cm w))) (NamespacedName_of cm) \<noteq> None"
  using assms
  by (auto simp: ensure_configmap_def Get_ConfigMap_def Create_ConfigMap_def Let_def emit_simps
        log_Info_simps split: option.splits)

lemma ensure_pod_calls:
  "Call TODO (Get PodKind (NamespacedName_of pod)) \<in> set (trace (snd (ensure_pod env pod w)))"
  "StoreFault env (Get PodKind (NamespacedName_of pod)) = None \<Longrightarrow>
   pods (store w) (NamespacedName_of pod) = None \<Longrightarrow>
     Call TODO (Create (PodObject pod)) \<in> set (trace (snd (ensure_pod env pod w)))"
  by (auto simp: ensure_pod_def Get_Pod_def Create_Pod_def Let_def emit_simps time_Sleep_def
        log_Info_simps emit_def split: option.splits)

lemma ensure_pod_done:
  assumes "\<forall>s. WhileSleeping env s = s"
      and "StoreFault env (Get PodKind (NamespacedName_of pod)) = None"
      and "pods (store w) (NamespacedName_of pod) \<noteq> None \<or>
           StoreFault env (Create (PodObject pod)) = None"
  shows "pods (store (snd (ensure_pod env pod w))) (NamespacedName_of pod) \<noteq> None"
  using assms
  by (auto simp: ensure_pod_def Get_Pod_def Create_Pod_def Let_def emit_simps time_Sleep_def
        log_Info_simps split: option.splits)

lemma observe_ensures_configmap:
  assumes ws: "\<forall>s. WhileSleeping env s = s"
      and fr: "fst (fetch_and_render env ctx req w0) = Inr (client, config, configmap)"
  shows "Call TODO (Get ConfigMapKind (NamespacedName_of configmap))
           \<in> set (trace (snd (observe env ctx req w0)))"
    and "StoreFault env (Get ConfigMapKind (NamespacedName_of configmap)) = None \<Longrightarrow>
         configmaps (store w0) (NamespacedName_of configmap) = None \<Longrightarrow>
           Call TODO (Create (ConfigMapObject configmap))
             \<in> set (trace (snd (observe env ctx req w0)))"
    and "StoreFault env (Get ConfigMapKind (NamespacedName_of configmap)) = None \<Longrightarrow>
         configmaps (store w0) (NamespacedName_of configmap) \<noteq> None \<or>
         StoreFault env (Create (ConfigMapObject configmap)) = None \<Longrightarrow>
           configmaps (store (snd (observe env ctx req w0))) (NamespacedName_of configmap) \<noteq> None"
proof -
  let ?k = "NamespacedName_of configmap"
  let ?get = "Call TODO (Get ConfigMapKind ?k)"
  let ?create = "Call TODO (Create (ConfigMapObject configmap))"
  obtain w1 where a: "fetch_and_render env ctx req w0 = (Inr (client, config, configmap), w1)"
    using fr by (metis prod.collapse)
  have s1: "store w1 = store w0"
    using fetch_and_render_effect(1) [of env ctx req w0] a by simp
  define w2 where "w2 = snd (ensure_configmap env configmap w1)"
  have g: "?get \<in> set (trace w2)"
    unfolding w2_def by (rule ensure_configmap_calls)
  have c: "?create \<in> set (trace w2)"
    if "StoreFault env (Get ConfigMapKind ?k) = None" "configmaps (store w0) ?k = None"
    unfolding w2_def using that s1 by (intro ensure_configmap_calls) simp_all
  have d: "configmaps (store w2) ?k \<noteq> None"
    if "StoreFault env (Get ConfigMapKind ?k) = None"
       "configmaps (store w0) ?k \<noteq> None \<or> StoreFault env (Create (ConfigMapObject configmap)) = None"
    unfolding w2_def using that s1 by (intro ensure_configmap_done) simp_all
  have fin: "set (trace w2) \<subseteq> set (trace (snd (observe env ctx req w0))) \<and>
             configmaps (store (snd (observe env ctx req w0))) = configmaps (store w2)"
  proof (cases rule: observe_cases [of env ctx req w0])
    case (fetch_failed err w1')
    with a show ?thesis by simp
  next
    case (configmap_failed client' config' configmap' w1' err w2')
    with a show ?thesis by (simp add: w2_def)
  next
    case (build_failed client' config' configmap' w1' createdConfigMap w2' err w3)
    with a build_pod_grows [of w2' env client'] build_pod_effect(1) [of env client' w2']
    show ?thesis by (simp add: w2_def)
  next
    case (pod_failed client' config' configmap' w1' createdConfigMap w2' pod w3 err w4)
    with a build_pod_grows [of w2' env client'] build_pod_effect(1) [of env client' w2']
      ensure_pod_grows_set [of w3 env pod] ensure_pod_store(3) [OF ws, of pod w3]
    show ?thesis by (auto simp: w2_def)
  next
    case (observed client' config' configmap' w1' createdConfigMap w2' pod w3 createdPod w4)
    with a build_pod_grows [of w2' env client'] build_pod_effect(1) [of env client' w2']
      ensure_pod_grows_set [of w3 env pod] ensure_pod_store(3) [OF ws, of pod w3]
    show ?thesis by (auto simp: w2_def)
  qed
  show "?get \<in> set (trace (snd (observe env ctx req w0)))"
    using g fin by blast
  show "?create \<in> set (trace (snd (observe env ctx req w0)))"
    if "StoreFault env (Get ConfigMapKind ?k) = None" "configmaps (store w0) ?k = None"
    using c [OF that] fin by blast
  show "configmaps (store (snd (observe env ctx req w0))) ?k \<noteq> None"
    if "StoreFault env (Get ConfigMapKind ?k) = None"
       "configmaps (store w0) ?k \<noteq> None \<or> StoreFault env (Create (ConfigMapObject configmap)) = None"
    using d [OF that] fin by simp
qed

lemma observe_ensures_pod:
  assumes ws: "\<forall>s. WhileSleeping env s = s"
      and fr: "fst (fetch_and_render env ctx req w0) = Inr (client, config, configmap)"
      and gf: "StoreFault env (Get ConfigMapKind (NamespacedName_of configmap)) = None"
      and ok: "configmaps (store w0) (NamespacedName_of configmap) \<noteq> None \<or>
               StoreFault env (Create (ConfigMapObject configmap)) = None"
      and bp: "fst (build_pod env client w) = Inr pod"
  shows "Call TODO (Get PodKind (NamespacedName_of pod))
           \<in> set (trace (snd (observe env ctx req w0)))"
    and "StoreFault env (Get PodKind (NamespacedName_of pod)) = None \<Longrightarrow>
         pods (store w0) (NamespacedName_of pod) = None \<Longrightarrow>
           Call TODO (Create (PodObject pod)) \<in> set (trace (snd (observe env ctx req w0)))"
    and "StoreFault env (Get PodKind (NamespacedName_of pod)) = None \<Longrightarrow>
         pods (store w0) (NamespacedName_of pod) \<noteq> None \<or>
         StoreFault env (Create (PodObject pod)) = None \<Longrightarrow>
           pods (store (snd (observe env ctx req w0))) (NamespacedName_of pod) \<noteq> None"
proof -
  let ?k = "NamespacedName_of pod"
  obtain w1 where a: "fetch_and_render env ctx req w0 = (Inr (client, config, configmap), w1)"
    using fr by (metis prod.collapse)
  have s1: "store w1 = store w0"
    using fetch_and_render_effect(1) [of env ctx req w0] a by simp
  from ensure_configmap_done(1) [OF gf, of w1] ok s1 obtain c w2 where
    b: "ensure_configmap env configmap w1 = (Inr c, w2)" by (metis prod.collapse)
  have p2: "pods (store w2) = pods (store w0)"
    using ensure_configmap_pods [of env configmap w1] b s1 by simp
  obtain w3 where c: "build_pod env client w2 = (Inr pod, w3)"
    using bp build_pod_value [of env client w2 w] by (metis prod.collapse)
  have p3: "pods (store w3) = pods (store w0)"
    using build_pod_effect(1) [of env client w2] c p2 by simp
  have fin: "snd (observe env ctx req w0) = snd (ensure_pod env pod w3)"
  proof (cases rule: observe_cases [of env ctx req w0])
    case (fetch_failed err w1')
    with a show ?thesis by simp
  next
    case (configmap_failed client' config' configmap' w1' err w2')
    with a b show ?thesis by simp
  next
    case (build_failed client' config' configmap' w1' createdConfigMap w2' err w3')
    with a b c show ?thesis by simp
  next
    case (pod_failed client' config' configmap' w1' createdConfigMap w2' pod' w3' err w4)
    with a b c show ?thesis by simp
  next
    case (observed client' config' configmap' w1' createdConfigMap w2' pod' w3' createdPod w4)
    with a b c show ?thesis by simp
  qed
  show "Call TODO (Get PodKind ?k) \<in> set (trace (snd (observe env ctx req w0)))"
    unfolding fin by (rule ensure_pod_calls)
  show "Call TODO (Create (PodObject pod)) \<in> set (trace (snd (observe env ctx req w0)))"
    if "StoreFault env (Get PodKind ?k) = None" "pods (store w0) ?k = None"
    unfolding fin using that p3 by (intro ensure_pod_calls) simp_all
  show "pods (store (snd (observe env ctx req w0))) ?k \<noteq> None"
    if "StoreFault env (Get PodKind ?k) = None"
       "pods (store w0) ?k \<noteq> None \<or> StoreFault env (Create (PodObject pod)) = None"
    unfolding fin using that p3 by (intro ensure_pod_done [OF ws]) simp_all
qed

lemma second_pass_creates_nothing:
  assumes ws: "\<forall>s. WhileSleeping env s = s"
      and again: "\<forall>c' c. Call c' c \<in> set (trace (snd (first_pass env ctx req s))) \<and>
                    StoreFault env c \<noteq> None \<longrightarrow>
                    faults c \<noteq> None \<and> (\<forall>obj. c \<noteq> Create obj)"
  shows "create_calls (trace (snd (second_pass env faults ctx req s))) = []"
proof -
  define env2 where "env2 = env\<lparr>StoreFault := faults\<rparr>"
  define w0 where "w0 = \<lparr>store = s, trace = []\<rparr>"
  define s1 where "s1 = store (snd (observe env ctx req w0))"
  define w1 where "w1 = \<lparr>store = served s1, trace = []\<rparr>"
  have sp: "second_pass env faults ctx req s = Reconcile env2 ctx req w1"
    by (simp add: second_pass_def first_pass_def w1_def s1_def w0_def env2_def Reconcile_store)
  have f2: "StoreFault env2 = faults" by (simp add: env2_def)
  have made: "set (trace (snd (observe env ctx req w0)))
      \<subseteq> set (trace (snd (first_pass env ctx req s)))"
    unfolding first_pass_def w0_def by (rule Reconcile_grows)
  have rd: "StoreFault env c = None"
    if "Call c' c \<in> set (trace (snd (observe env ctx req w0)))" "faults c = None" for c' c
    using again that made by blast
  have cr: "StoreFault env (Create obj) = None"
    if "Call c' (Create obj) \<in> set (trace (snd (observe env ctx req w0)))" for c' obj
    using again that made by blast
  have d: "clients (store w1) = clients (store w0)" "upstreams (store w1) = upstreams (store w0)"
    using observe_declarations [OF ws, of ctx req w0] by (simp_all add: w1_def s1_def served_simps)
  have first: "fst (fetch_and_render env ctx req w0) = Inr (client, config, configmap)"
    if fr2: "fst (fetch_and_render env2 ctx req w1) = Inr (client, config, configmap)"
    for client config configmap
  proof -
    note n = fetch_and_render_Inr_faults [OF fr2]
    have g1: "StoreFault env (Get ClientKind req) = None"
      using rd [OF observe_reads_declaration(1)] n(1) f2 by simp
    have "clients (store w0) req \<noteq> None" using n(3) d(1) by simp
    then have g2: "StoreFault env (ListAll UpstreamKind) = None"
      using rd [OF observe_reads_declaration(2) [OF g1]] n(2) f2 by simp
    show ?thesis
      using fetch_and_render_second [OF fr2 [unfolded env2_def] d g1 g2] .
  qed
  have cm: "StoreFault env (Get ConfigMapKind (NamespacedName_of configmap)) = None \<and>
            (configmaps (store w0) (NamespacedName_of configmap) \<noteq> None \<or>
             StoreFault env (Create (ConfigMapObject configmap)) = None)"
    if fr: "fst (fetch_and_render env ctx req w0) = Inr (client, config, configmap)"
      and gf2: "faults (Get ConfigMapKind (NamespacedName_of configmap)) = None"
    for client config configmap
  proof -
    have gf: "StoreFault env (Get ConfigMapKind (NamespacedName_of configmap)) = None"
      using rd [OF observe_ensures_configmap(1) [OF ws fr]] gf2 by simp
    have "StoreFault env (Create (ConfigMapObject configmap)) = None"
      if "configmaps (store w0) (NamespacedName_of configmap) = None"
      using cr [OF observe_ensures_configmap(2) [OF ws fr gf that]] .
    with gf show ?thesis
      by (cases "configmaps (store w0) (NamespacedName_of configmap)") simp_all
  qed
  have "create_calls (trace (snd (observe env2 ctx req w1))) = create_calls (trace w1)"
  proof (rule observe_settled)
    fix client config configmap
    assume fr2: "fst (fetch_and_render env2 ctx req w1) = Inr (client, config, configmap)"
    note fr = first [OF fr2]
    show "StoreFault env2 (Get ConfigMapKind (NamespacedName_of configmap)) \<noteq> None \<or>
          configmaps (store w1) (NamespacedName_of configmap) \<noteq> None"
    proof (cases "faults (Get ConfigMapKind (NamespacedName_of configmap))")
      case None
      from cm [OF fr None] observe_ensures_configmap(3) [OF ws fr]
      have "configmaps s1 (NamespacedName_of configmap) \<noteq> None"
        by (simp add: s1_def)
      then show ?thesis by (simp add: w1_def served_simps)
    next
      case (Some msg)
      then show ?thesis by (simp add: f2)
    qed
  next
    fix client config configmap pod w
    assume fr2: "fst (fetch_and_render env2 ctx req w1) = Inr (client, config, configmap)"
      and gf2: "StoreFault env2 (Get ConfigMapKind (NamespacedName_of configmap)) = None"
      and bp2: "fst (build_pod env2 client w) = Inr pod"
    note fr = first [OF fr2]
    from gf2 have gf2': "faults (Get ConfigMapKind (NamespacedName_of configmap)) = None"
      by (simp add: f2)
    note c = cm [OF fr gf2']
    have bp: "fst (build_pod env client w) = Inr pod"
      using bp2 build_pod_faults [of faults env client w w] by (simp add: env2_def)
    note p = observe_ensures_pod [OF ws fr conjunct1 [OF c] conjunct2 [OF c] bp]
    show "StoreFault env2 (Get PodKind (NamespacedName_of pod)) \<noteq> None \<or>
          pods (store w1) (NamespacedName_of pod) \<noteq> None"
    proof (cases "faults (Get PodKind (NamespacedName_of pod))")
      case None
      have gp: "StoreFault env (Get PodKind (NamespacedName_of pod)) = None"
        using rd [OF p(1)] None by simp
      have "pods (store w0) (NamespacedName_of pod) \<noteq> None \<or>
            StoreFault env (Create (PodObject pod)) = None"
        using cr [OF p(2) [OF gp]]
        by (cases "pods (store w0) (NamespacedName_of pod)") simp_all
      from p(3) [OF gp this] show ?thesis
        by (simp add: w1_def s1_def served_simps)
    next
      case (Some msg)
      then show ?thesis by (simp add: f2)
    qed
  qed
  then show ?thesis
    by (simp add: sp Reconcile_creates w1_def)
qed

lemma second_pass_repeats:
  assumes "served s = s"
      and "create_calls (trace (snd (first_pass env ctx req s))) = []"
  shows "second_pass env faults ctx req s = first_pass (env\<lparr>StoreFault := faults\<rparr>) ctx req s"
proof -
  define w0 where "w0 = \<lparr>store = s, trace = []\<rparr>"
  have "create_calls (trace (snd (observe env ctx req w0))) = create_calls (trace w0)"
    using assms(2) by (simp add: first_pass_def Reconcile_creates w0_def)
  then have "store (snd (observe env ctx req w0)) = store w0"
    by (rule observe_idle)
  then have "store (snd (first_pass env ctx req s)) = s"
    by (simp add: first_pass_def Reconcile_store w0_def)
  then show ?thesis
    using assms(1) by (simp add: second_pass_def) (simp add: first_pass_def)
qed

lemma ensure_configmap_created:
  assumes "StoreFault env (Create (ConfigMapObject c)) = None"
      and "ConfigMapObject c \<in> set (create_calls (trace (snd (ensure_configmap env cm w))))"
      and "ConfigMapObject c \<notin> set (create_calls (trace w))"
  shows "c = cm \<and>
         configmaps (store (snd (ensure_configmap env cm w))) (NamespacedName_of cm) = Some cm"
  using assms
  by (auto simp: ensure_configmap_def Get_ConfigMap_def Create_ConfigMap_def Let_def emit_simps
        log_Info_simps create_calls_append emit_def split: option.splits if_splits)

lemma observe_created_configmap:
  assumes ws: "\<forall>s. WhileSleeping env s = s"
      and cf: "StoreFault env (Create (ConfigMapObject cm)) = None"
      and cr: "ConfigMapObject cm \<in> set (create_calls (trace (snd (observe env ctx req w0))))"
      and t0: "ConfigMapObject cm \<notin> set (create_calls (trace w0))"
  shows "(\<exists>client config. fst (fetch_and_render env ctx req w0) = Inr (client, config, cm)) \<and>
         configmaps (store (snd (observe env ctx req w0))) (NamespacedName_of cm) = Some cm"
proof (cases rule: observe_cases [of env ctx req w0])
  case (fetch_failed err w1)
  with cr t0 fetch_and_render_effect(3) [of env ctx req w0] show ?thesis by simp
next
  case (configmap_failed client config configmap w1 err w2)
  have t1: "ConfigMapObject cm \<notin> set (create_calls (trace w1))"
    using fetch_and_render_effect(3) [of env ctx req w0] configmap_failed(1) t0 by simp
  show ?thesis
    using ensure_configmap_created [OF cf, of configmap w1] configmap_failed cr t1 by simp
next
  case (build_failed client config configmap w1 createdConfigMap w2 err w3)
  have t1: "ConfigMapObject cm \<notin> set (create_calls (trace w1))"
    using fetch_and_render_effect(3) [of env ctx req w0] build_failed(1) t0 by simp
  show ?thesis
    using ensure_configmap_created [OF cf, of configmap w1] build_failed cr t1
      build_pod_effect(1,3) [of env client w2] by simp
next
  case (pod_failed client config configmap w1 createdConfigMap w2 pod w3 err w4)
  have t1: "ConfigMapObject cm \<notin> set (create_calls (trace w1))"
    using fetch_and_render_effect(3) [of env ctx req w0] pod_failed(1) t0 by simp
  have "ConfigMapObject cm \<in> set (create_calls (trace w3))"
    using ensure_pod_creates_no_configmap [of cm env pod w3] pod_failed(4,5) cr by simp
  then show ?thesis
    using ensure_configmap_created [OF cf, of configmap w1] pod_failed t1
      build_pod_effect(1,3) [of env client w2] ensure_pod_store(3) [OF ws, of pod w3] by simp
next
  case (observed client config configmap w1 createdConfigMap w2 pod w3 createdPod w4)
  have t1: "ConfigMapObject cm \<notin> set (create_calls (trace w1))"
    using fetch_and_render_effect(3) [of env ctx req w0] observed(1) t0 by simp
  have "ConfigMapObject cm \<in> set (create_calls (trace w3))"
    using ensure_pod_creates_no_configmap [of cm env pod w3] observed(4,5) cr by simp
  then show ?thesis
    using ensure_configmap_created [OF cf, of configmap w1] observed t1
      build_pod_effect(1,3) [of env client w2] ensure_pod_store(3) [OF ws, of pod w3] by simp
qed

lemma second_pass_in_sync:
  assumes ws: "\<forall>s. WhileSleeping env s = s"
      and cr: "ConfigMapObject cm \<in> set (create_calls (trace (snd (first_pass env ctx req s))))"
      and cf: "StoreFault env (Create (ConfigMapObject cm)) = None"
      and ne: "Data cm \<noteq> Some Map.empty"
  shows "reload_calls (trace (snd (second_pass env faults ctx req s))) = []"
proof (rule ccontr)
  define env2 where "env2 = env\<lparr>StoreFault := faults\<rparr>"
  define w0 where "w0 = \<lparr>store = s, trace = []\<rparr>"
  define s1 where "s1 = store (snd (observe env ctx req w0))"
  define w1 where "w1 = \<lparr>store = served s1, trace = []\<rparr>"
  have sp: "second_pass env faults ctx req s = Reconcile env2 ctx req w1"
    by (simp add: second_pass_def first_pass_def w1_def s1_def w0_def env2_def Reconcile_store)
  have d: "clients (store w1) = clients (store w0)" "upstreams (store w1) = upstreams (store w0)"
    using observe_declarations [OF ws, of ctx req w0] by (simp_all add: w1_def s1_def served_simps)
  have cr0: "ConfigMapObject cm \<in> set (create_calls (trace (snd (observe env ctx req w0))))"
    using cr by (simp add: first_pass_def Reconcile_creates w0_def)
  have t0: "ConfigMapObject cm \<notin> set (create_calls (trace w0))"
    by (simp add: w0_def)
  from observe_created_configmap [OF ws cf cr0 t0] obtain client config where
    fr: "fst (fetch_and_render env ctx req w0) = Inr (client, config, cm)" and
    st: "configmaps s1 (NamespacedName_of cm) = Some cm"
    by (auto simp: s1_def)
  have st1: "configmaps (store w1) (NamespacedName_of cm) = Some (decoded cm)"
    using st by (simp add: w1_def served_simps)
  assume "reload_calls (trace (snd (second_pass env faults ctx req s))) \<noteq> []"
  then have "reload_calls (trace (snd (Reconcile env2 ctx req w1))) \<noteq> reload_calls (trace w1)"
    by (simp add: sp w1_def)
  from Reconcile_reloadsD [OF this] obtain client' config' configmap' createdConfigMap pod
    createdPod w' where
    obs: "observe env2 ctx req w1 =
            (Inr (client', config', configmap', createdConfigMap, pod, createdPod), w')" and
    df: "Data createdConfigMap \<noteq> Data configmap'" by blast
  from observe_InrD [OF obs] have
    fr2: "fst (fetch_and_render env2 ctx req w1) = Inr (client', config', configmap')" by auto
  note n = fetch_and_render_Inr_faults [OF fr]
  have "fst (fetch_and_render env ctx req w0) = Inr (client', config', configmap')"
    using fetch_and_render_second [OF fr2 [unfolded env2_def] d n(1,2)] .
  with fr have cm: "configmap' = cm" by simp
  have "createdConfigMap = decoded cm"
    using observe_createdConfigMap [OF obs] st1 cm by simp
  with df cm decoded_Data [OF ne] show False by simp
qed

lemma demo_data_differ: "[''frpc.ini'' \<mapsto> ''22''] \<noteq> [''frpc.ini'' \<mapsto> ''225432'']"
  using map_upd_eqD1 by fastforce

lemmas run_defs = first_pass_def second_pass_def Reconcile_def check_and_reload_def
  PodRunning_def zero_Pod_def zero_ConfigMap_def

lemma demo_first_pass_drift:
  "first_pass demo_env ctx (''default'', ''web'')
      (demo_store (Some (demo_configmap ''22'')) (Some (demo_pod ''Running'' ''10.0.0.7''))) =
   ((\<lparr>Requeue = False, RequeueAfter = 30 * Second\<rparr>, None),
    \<lparr>store = demo_store (Some (demo_configmap ''22'')) (Some (demo_pod ''Running'' ''10.0.0.7'')),
     trace = [Log ''Start Client Reconciler'',
              Call ctx (Get ClientKind (''default'', ''web'')),
              Call ctx (ListAll UpstreamKind),
              Log ''Build configuration'', Log ''Build config map'',
              Log ''set reference config map'',
              Log ''get config map'', Call TODO (Get ConfigMapKind (''default'', ''web'')),
              Log ''Build pod'', Log ''set reference pod'',
              Log ''get pod'', Call TODO (Get PodKind (''default'', ''web'')),
              Log ''check pod running'',
              HandlerReload
                (demo_config\<lparr>Common := (Common demo_config)\<lparr>AdminAddress := ''10.0.0.7''\<rparr>\<rparr>)]\<rparr>)"
  using demo_data_differ
  by (simp add: run_defs model_defs demo_defs)

lemmas pass_defs = run_defs served_def decoded_def

lemma demo_served:
  "served (demo_store (Some (demo_configmap doc)) p) = demo_store (Some (demo_configmap doc)) p"
  by (auto simp: served_def demo_store_def demo_configmap_def decoded_def fun_eq_iff)

lemma demo_first_pass_nocm:
  "create_calls (trace (snd (first_pass demo_env ctx (''default'', ''web'')
      (demo_store None (Some (demo_pod ''Running'' ''10.0.0.7'')))))) =
     [ConfigMapObject (demo_configmap ''225432'')]"
  by (simp add: run_defs model_defs demo_defs)

section \<open>The claims\<close>

text \<open>
  In what follows \<open>w0\<close> is the store and the record before the pass. A hypothesis
  \<open>fst (observe env ctx req w0) = Inr (client, config, configmap, createdConfigMap, pod,
  createdPod)\<close> says that the pass reached the readiness gate of line 147, and names the
  values of its variables there; what the store held before the pass is said of
  \<open>store w0\<close>. The calls of a pass are read off the record after it.
\<close>

text \<open>
  C1. When the config map found in the store differs in content from the rendered one and
  the pod the pass observed is Running, that pod is the stored one, the pass calls the
  reload handler exactly once, with the config whose \<^verbatim>\<open>Common.AdminAddress\<close> is the pod's IP,
  and an error of that call is returned with the zero result (otherwise the pass ends
  with the thirty-second requeue).
\<close>

theorem drift_reloads_once:
  assumes "fst (observe env ctx req w0) =
             Inr (client, config, configmap, createdConfigMap, pod, createdPod)"
      and "configmaps (store w0) (NamespacedName_of configmap) = Some stored"
      and "Data stored \<noteq> Data configmap"
      and "Phase (Status createdPod) = PodRunning"
  shows "pods (store w0) (NamespacedName_of pod) = Some createdPod \<and>
         reload_calls (trace (snd (Reconcile env ctx req w0))) =
           reload_calls (trace w0) @
             [config\<lparr>Common := (Common config)\<lparr>AdminAddress := PodIP (Status createdPod)\<rparr>\<rparr>] \<and>
         fst (Reconcile env ctx req w0) =
           (case Reload env
                   (config\<lparr>Common := (Common config)
                              \<lparr>AdminAddress := PodIP (Status createdPod)\<rparr>\<rparr>) of
              Some err \<Rightarrow> (zero_Result, Some err)
            | None \<Rightarrow> (\<lparr>Requeue = False, RequeueAfter = 30 * Second\<rparr>, None))"
proof -
  let ?w = "snd (observe env ctx req w0)"
  have obs: "observe env ctx req w0 =
      (Inr (client, config, configmap, createdConfigMap, pod, createdPod), ?w)"
    using assms(1) by (rule observe_pair)
  have cm: "createdConfigMap = stored"
    using observe_createdConfigMap [OF obs] assms(2) by simp
  have pod: "pods (store w0) (NamespacedName_of pod) = Some createdPod"
    using observe_createdPod [OF obs] assms(4) zero_Pod_not_Running
    by (cases "pods (store w0) (NamespacedName_of pod)") auto
  have rl: "reload_calls (trace ?w) = reload_calls (trace w0)"
    by (rule observe_reloads)
  have rc: "Reconcile env ctx req w0 =
      check_and_reload env config configmap stored createdPod ?w"
    using Reconcile_observed [OF obs] cm by simp
  show ?thesis
    using pod rl assms(3,4)
    by (simp add: rc check_and_reload_def Let_def log_Info_simps emit_simps reload_calls_append
          split: option.splits)
qed

theorem drift_reloads_once_witness:
  "fst (Reconcile (demo_env\<lparr>Reload := \<lambda>cfg. Some (GenericError ''refused'')\<rparr>)
          (Cancellable 1) (''default'', ''web'')
          \<lparr>store = demo_store (Some (demo_configmap ''22''))
                               (Some (demo_pod ''Running'' ''10.0.0.7'')),
           trace = []\<rparr>)
     = (zero_Result, Some (GenericError ''refused'')) \<and>
   reload_calls (trace (snd (Reconcile (demo_env\<lparr>Reload := \<lambda>cfg. Some (GenericError ''refused'')\<rparr>)
          (Cancellable 1) (''default'', ''web'')
          \<lparr>store = demo_store (Some (demo_configmap ''22''))
                               (Some (demo_pod ''Running'' ''10.0.0.7'')),
           trace = []\<rparr>)))
     = [demo_config\<lparr>Common := (Common demo_config)\<lparr>AdminAddress := ''10.0.0.7''\<rparr>\<rparr>]"
proof -
  let ?env = "demo_env\<lparr>Reload := \<lambda>cfg. Some (GenericError ''refused'')\<rparr>"
  let ?w0 = "\<lparr>store = demo_store (Some (demo_configmap ''22''))
                               (Some (demo_pod ''Running'' ''10.0.0.7'')),
           trace = []\<rparr>"
  have obs: "fst (observe ?env (Cancellable 1) (''default'', ''web'') ?w0) =
      Inr (demo_client, demo_config, demo_configmap ''225432'', demo_configmap ''22'',
           demo_pod [] [], demo_pod ''Running'' ''10.0.0.7'')"
    by (simp add: model_defs demo_defs)
  have st: "configmaps (store ?w0) (NamespacedName_of (demo_configmap ''225432'')) =
      Some (demo_configmap ''22'')"
    by (simp add: demo_defs NamespacedName_of_def)
  have "[''frpc.ini'' \<mapsto> ''22''] \<noteq> [''frpc.ini'' \<mapsto> ''225432'']"
    using map_upd_eqD1 by fastforce
  then have df: "Data (demo_configmap ''22'') \<noteq> Data (demo_configmap ''225432'')"
    by (simp add: demo_configmap_def)
  have ph: "Phase (Status (demo_pod ''Running'' ''10.0.0.7'')) = PodRunning"
    by (simp add: demo_pod_def PodRunning_def)
  show ?thesis
    using drift_reloads_once [OF obs st df ph]
    by (simp add: demo_pod_def demo_env_def)
qed

text \<open>
  C2, as the code has it. Two passes in a row on one declaration, nothing else changing
  the store. The second pass makes no Create call, provided no Create call of the first
  pass failed and every store call that failed on the first pass fails again on the second
  (so in particular when no store call of the first pass failed). A reload is not held
  back: when the first pass created nothing, the second pass meets the store as it was
  and does what a first pass does there, so with the store answering as before it repeats
  the first pass, reload included. When the first pass created the config map, and its
  data is not an empty map that the store serves back as nil, the second pass calls no
  reload.
\<close>

theorem second_pass_after_first:
  assumes "\<forall>s. WhileSleeping env s = s"
  shows "((\<forall>c' c. Call c' c \<in> set (trace (snd (first_pass env ctx req s))) \<and>
                  StoreFault env c \<noteq> None \<longrightarrow>
                  faults c \<noteq> None \<and> (\<forall>obj. c \<noteq> Create obj)) \<longrightarrow>
            create_calls (trace (snd (second_pass env faults ctx req s))) = []) \<and>
         (served s = s \<and> create_calls (trace (snd (first_pass env ctx req s))) = [] \<longrightarrow>
            second_pass env faults ctx req s =
              first_pass (env\<lparr>StoreFault := faults\<rparr>) ctx req s) \<and>
         ((\<exists>cm. ConfigMapObject cm \<in> set (create_calls (trace (snd (first_pass env ctx req s)))) \<and>
                StoreFault env (Create (ConfigMapObject cm)) = None \<and>
                Data cm \<noteq> Some Map.empty) \<longrightarrow>
            reload_calls (trace (snd (second_pass env faults ctx req s))) = [])"
proof (intro conjI impI)
  assume "\<forall>c' c. Call c' c \<in> set (trace (snd (first_pass env ctx req s))) \<and>
                  StoreFault env c \<noteq> None \<longrightarrow>
                  faults c \<noteq> None \<and> (\<forall>obj. c \<noteq> Create obj)"
  with assms show "create_calls (trace (snd (second_pass env faults ctx req s))) = []"
    by (rule second_pass_creates_nothing)
next
  assume "served s = s \<and> create_calls (trace (snd (first_pass env ctx req s))) = []"
  then show "second_pass env faults ctx req s =
      first_pass (env\<lparr>StoreFault := faults\<rparr>) ctx req s"
    using second_pass_repeats by blast
next
  assume "\<exists>cm. ConfigMapObject cm \<in> set (create_calls (trace (snd (first_pass env ctx req s)))) \<and>
                StoreFault env (Create (ConfigMapObject cm)) = None \<and>
                Data cm \<noteq> Some Map.empty"
  then obtain cm where
    "ConfigMapObject cm \<in> set (create_calls (trace (snd (first_pass env ctx req s))))"
    "StoreFault env (Create (ConfigMapObject cm)) = None" "Data cm \<noteq> Some Map.empty"
    by blast
  with assms show "reload_calls (trace (snd (second_pass env faults ctx req s))) = []"
    by (rule second_pass_in_sync)
qed

theorem second_pass_after_first_witness:
  "second_pass demo_env (StoreFault demo_env) (Cancellable 1) (''default'', ''web'')
      (demo_store (Some (demo_configmap ''22'')) (Some (demo_pod ''Running'' ''10.0.0.7''))) =
   first_pass demo_env (Cancellable 1) (''default'', ''web'')
      (demo_store (Some (demo_configmap ''22'')) (Some (demo_pod ''Running'' ''10.0.0.7''))) \<and>
   create_calls (trace (snd (first_pass demo_env (Cancellable 1) (''default'', ''web'')
      (demo_store None (Some (demo_pod ''Running'' ''10.0.0.7'')))))) =
     [ConfigMapObject (demo_configmap ''225432'')] \<and>
   create_calls (trace (snd (second_pass demo_env (StoreFault demo_env) (Cancellable 1)
      (''default'', ''web'') (demo_store None (Some (demo_pod ''Running'' ''10.0.0.7'')))))) = [] \<and>
   reload_calls (trace (snd (second_pass demo_env (StoreFault demo_env) (Cancellable 1)
      (''default'', ''web'') (demo_store None (Some (demo_pod ''Running'' ''10.0.0.7'')))))) = [] \<and>
   fst (first_pass
          (demo_env\<lparr>StoreFault :=
             \<lambda>c. case c of Get PodKind k \<Rightarrow> Some ''timeout'' | _ \<Rightarrow> None\<rparr>)
          (Cancellable 1) (''default'', ''web'') (demo_store None None)) =
     (zero_Result, Some (GenericError ''timeout'')) \<and>
   create_calls (trace (snd (second_pass
          (demo_env\<lparr>StoreFault :=
             \<lambda>c. case c of Get PodKind k \<Rightarrow> Some ''timeout'' | _ \<Rightarrow> None\<rparr>)
          (\<lambda>c. case c of Get PodKind k \<Rightarrow> Some ''timeout'' | _ \<Rightarrow> None)
          (Cancellable 1) (''default'', ''web'') (demo_store None None)))) = []"
proof -
  let ?slow = "\<lambda>c. case c of Get PodKind k \<Rightarrow> Some ''timeout'' | _ \<Rightarrow> None"
  let ?drift = "demo_store (Some (demo_configmap ''22'')) (Some (demo_pod ''Running'' ''10.0.0.7''))"
  let ?nocm = "demo_store None (Some (demo_pod ''Running'' ''10.0.0.7''))"
  let ?req = "(''default'', ''web'')"
  have ws: "\<forall>s. WhileSleeping demo_env s = s"
    by (simp add: demo_env_def)
  have nf: "StoreFault demo_env c = None" for c
    by (simp add: demo_env_def)
  have same: "demo_env\<lparr>StoreFault := StoreFault demo_env\<rparr> = demo_env"
    by (simp add: demo_env_def)
  note drift = second_pass_after_first [OF ws, of "Cancellable 1" ?req ?drift "StoreFault demo_env"]
  note nocm = second_pass_after_first [OF ws, of "Cancellable 1" ?req ?nocm "StoreFault demo_env"]
  have c0: "create_calls (trace (snd (first_pass demo_env (Cancellable 1) ?req ?drift))) = []"
    by (simp add: demo_first_pass_drift)
  have c1: "create_calls (trace (snd (first_pass demo_env (Cancellable 1) ?req ?nocm))) =
      [ConfigMapObject (demo_configmap ''225432'')]"
    by (rule demo_first_pass_nocm)
  have ne: "Data (demo_configmap ''225432'') \<noteq> Some Map.empty"
    by (simp add: demo_configmap_def)
  have a: "second_pass demo_env (StoreFault demo_env) (Cancellable 1) ?req ?drift =
      first_pass demo_env (Cancellable 1) ?req ?drift"
    using drift c0 demo_served [of "''22''"] by (simp add: same)
  have b: "create_calls (trace (snd (second_pass demo_env (StoreFault demo_env) (Cancellable 1)
      ?req ?nocm))) = []"
    using nocm by (simp add: nf)
  have c: "reload_calls (trace (snd (second_pass demo_env (StoreFault demo_env) (Cancellable 1)
      ?req ?nocm))) = []"
    using nocm c1 ne nf by auto
  have ws': "\<forall>s. WhileSleeping (demo_env\<lparr>StoreFault := ?slow\<rparr>) s = s"
    by (simp add: demo_env_def)
  have again: "\<forall>c' c. Call c' c \<in> set (trace (snd (first_pass (demo_env\<lparr>StoreFault := ?slow\<rparr>)
                    (Cancellable 1) ?req (demo_store None None)))) \<and>
                  StoreFault (demo_env\<lparr>StoreFault := ?slow\<rparr>) c \<noteq> None \<longrightarrow>
                  ?slow c \<noteq> None \<and> (\<forall>obj. c \<noteq> Create obj)"
    by (auto split: call.splits kind.splits)
  have d: "fst (first_pass (demo_env\<lparr>StoreFault := ?slow\<rparr>) (Cancellable 1) ?req
      (demo_store None None)) = (zero_Result, Some (GenericError ''timeout''))"
    by (simp add: run_defs model_defs demo_defs)
  have e: "create_calls (trace (snd (second_pass (demo_env\<lparr>StoreFault := ?slow\<rparr>) ?slow
      (Cancellable 1) ?req (demo_store None None)))) = []"
    using second_pass_after_first [OF ws', of "Cancellable 1" ?req "demo_store None None" ?slow]
      again by blast
  from a c1 b c d e show ?thesis by (intro conjI)
qed

text \<open>
  C2 as it is stated fails. The store holds a config map whose content is not the rendered
  one, and a Running pod. The first pass creates nothing and leaves the store as it is;
  the second pass, on that same store and with no store call failing, calls the reload
  again.
\<close>

theorem second_pass_reloads_again_counterexample:
  "store (snd (first_pass demo_env (Cancellable 1) (''default'', ''web'')
      (demo_store (Some (demo_configmap ''22'')) (Some (demo_pod ''Running'' ''10.0.0.7''))))) =
     demo_store (Some (demo_configmap ''22'')) (Some (demo_pod ''Running'' ''10.0.0.7'')) \<and>
   reload_calls (trace (snd (second_pass demo_env (StoreFault demo_env) (Cancellable 1)
      (''default'', ''web'')
      (demo_store (Some (demo_configmap ''22'')) (Some (demo_pod ''Running'' ''10.0.0.7'')))))) =
     [demo_config\<lparr>Common := (Common demo_config)\<lparr>AdminAddress := ''10.0.0.7''\<rparr>\<rparr>]"
proof -
  have same: "demo_env\<lparr>StoreFault := StoreFault demo_env\<rparr> = demo_env"
    by (simp add: demo_env_def)
  have "second_pass demo_env (StoreFault demo_env) (Cancellable 1) (''default'', ''web'')
      (demo_store (Some (demo_configmap ''22'')) (Some (demo_pod ''Running'' ''10.0.0.7''))) =
    first_pass demo_env (Cancellable 1) (''default'', ''web'')
      (demo_store (Some (demo_configmap ''22'')) (Some (demo_pod ''Running'' ''10.0.0.7'')))"
    by (simp add: second_pass_def same demo_served demo_first_pass_drift
          demo_first_pass_drift [unfolded first_pass_def])
  then show ?thesis
    by (simp add: demo_first_pass_drift)
qed

text \<open>
  The conditions are needed. A store that rejects the pod lets the first pass end with
  that error after it created the config map, and the second pass tries the pod again.
\<close>

lemma rejected_create_is_retried:
  "fst (first_pass
          (demo_env\<lparr>StoreFault :=
             \<lambda>c. case c of Create (PodObject p) \<Rightarrow> Some ''forbidden'' | _ \<Rightarrow> None\<rparr>)
          ctx (''default'', ''web'') (demo_store None None)) =
     (zero_Result, Some (GenericError ''forbidden'')) \<and>
   create_calls (trace (snd (second_pass
          (demo_env\<lparr>StoreFault :=
             \<lambda>c. case c of Create (PodObject p) \<Rightarrow> Some ''forbidden'' | _ \<Rightarrow> None\<rparr>)
          (\<lambda>c. case c of Create (PodObject p) \<Rightarrow> Some ''forbidden'' | _ \<Rightarrow> None)
          ctx (''default'', ''web'') (demo_store None None)))) =
     [PodObject (demo_pod [] [])]"
  by (simp add: pass_defs model_defs demo_defs)

text \<open>
  A read that fails on the first pass only: the first pass ends on the failed Get of the
  declaration and creates nothing, the second pass, with no call failing, creates both
  objects.
\<close>

lemma failed_read_is_followed_by_creates:
  "fst (first_pass
          (demo_env\<lparr>StoreFault :=
             \<lambda>c. case c of Get ClientKind k \<Rightarrow> Some ''timeout'' | _ \<Rightarrow> None\<rparr>)
          ctx (''default'', ''web'') (demo_store None None)) =
     (zero_Result, Some (GenericError ''timeout'')) \<and>
   create_calls (trace (snd (second_pass
          (demo_env\<lparr>StoreFault :=
             \<lambda>c. case c of Get ClientKind k \<Rightarrow> Some ''timeout'' | _ \<Rightarrow> None\<rparr>)
          (\<lambda>c. None)
          ctx (''default'', ''web'') (demo_store None None)))) =
     [ConfigMapObject (demo_configmap ''225432''), PodObject (demo_pod [] [])]"
  by (simp add: pass_defs model_defs demo_defs)

text \<open>
  A builder that renders an empty map that is not nil: the first pass creates the config
  map, the store serves it back with nil data, and the second pass finds it different
  from the rendered one and calls the reload.
\<close>

lemma empty_data_is_reloaded_again:
  "create_calls (trace (snd (first_pass
          (demo_env\<lparr>ConfigMapBuilder_Build :=
             \<lambda>doc n ns. Inr \<lparr>Name = n, Namespace = ns, UID = [], OwnerReferences = [],
                              Data = Some Map.empty\<rparr>\<rparr>)
          ctx (''default'', ''web'')
          (demo_store None (Some (demo_pod ''Running'' ''10.0.0.7'')))))) =
     [ConfigMapObject \<lparr>Name = ''web'', Namespace = ''default'', UID = [],
                       OwnerReferences = [demo_ref], Data = Some Map.empty\<rparr>] \<and>
   reload_calls (trace (snd (second_pass
          (demo_env\<lparr>ConfigMapBuilder_Build :=
             \<lambda>doc n ns. Inr \<lparr>Name = n, Namespace = ns, UID = [], OwnerReferences = [],
                              Data = Some Map.empty\<rparr>\<rparr>)
          (\<lambda>c. None)
          ctx (''default'', ''web'')
          (demo_store None (Some (demo_pod ''Running'' ''10.0.0.7'')))))) =
     [demo_config\<lparr>Common := (Common demo_config)\<lparr>AdminAddress := ''10.0.0.7''\<rparr>\<rparr>]"
  by (simp add: pass_defs model_defs demo_defs)

text \<open>
  C3, as the code has it. When the declaration is in the store and neither the Get nor the
  List fails, \<^verbatim>\<open>filteredUpstreams\<close>, the list Reconcile hands to \<^verbatim>\<open>models.NewConfig\<close>, is
  the listing restricted to the upstreams whose \<^verbatim>\<open>Spec.Client\<close> is the declaration's name,
  in the order of the listing: an upstream is in it if and only if it is listed and names
  that name, whatever its namespace. The pass goes on to \<^verbatim>\<open>models.NewConfig\<close> with this
  list also when it is empty.
\<close>

theorem upstreams_filtered_by_name:
  assumes "clients (store w0) req = Some client"
      and "StoreFault env (Get ClientKind req) = None"
      and "StoreFault env (ListAll UpstreamKind) = None"
  shows "fst (fetch env ctx req w0) =
           Inr (client, filter (\<lambda>U. SpecClient U = Name client) (upstreams (store w0))) \<and>
         fst (fetch_and_render env ctx req w0) =
           (case fst (render env client
                        (filter (\<lambda>U. SpecClient U = Name client) (upstreams (store w0)))
                        (snd (fetch env ctx req w0))) of
              Inl err \<Rightarrow> Inl err
            | Inr (config, configmap) \<Rightarrow> Inr (client, config, configmap))"
proof -
  have f: "fst (fetch env ctx req w0) =
           Inr (client, filter (\<lambda>U. SpecClient U = Name client) (upstreams (store w0)))"
    using assms
    by (simp add: fetch_def Get_Client_def List_Upstreams_def Let_def emit_simps
          log_Info_simps filterUpstreams_filter)
  define w1 where "w1 = snd (fetch env ctx req w0)"
  have fp: "fetch env ctx req w0 =
      (Inr (client, filter (\<lambda>U. SpecClient U = Name client) (upstreams (store w0))), w1)"
    unfolding w1_def using f by (metis prod.collapse)
  have "fst (fetch_and_render env ctx req w0) =
           (case fst (render env client
                        (filter (\<lambda>U. SpecClient U = Name client) (upstreams (store w0))) w1) of
              Inl err \<Rightarrow> Inl err
            | Inr (config, configmap) \<Rightarrow> Inr (client, config, configmap))"
    by (simp add: fetch_and_render_def fp split: prod.splits sum.splits)
  with f show ?thesis unfolding w1_def by simp
qed

theorem upstreams_filtered_by_name_witness:
  "fst (fetch demo_env (Cancellable 1) (''default'', ''web'')
          \<lparr>store = demo_store None None, trace = []\<rparr>) =
     Inr (demo_client, [demo_upstreams ! 0, demo_upstreams ! 2]) \<and>
   fst (fetch demo_env (Cancellable 1) (''default'', ''web'')
          \<lparr>store = (demo_store None None)\<lparr>upstreams := [demo_upstreams ! 1]\<rparr>, trace = []\<rparr>) =
     Inr (demo_client, []) \<and>
   fst (fetch_and_render demo_env (Cancellable 1) (''default'', ''web'')
          \<lparr>store = (demo_store None None)\<lparr>upstreams := [demo_upstreams ! 1]\<rparr>, trace = []\<rparr>) =
     Inr (demo_client, demo_config\<lparr>Rules := []\<rparr>, demo_configmap [])"
proof -
  let ?w0 = "\<lparr>store = demo_store None None, trace = []\<rparr>"
  let ?w1 = "\<lparr>store = (demo_store None None)\<lparr>upstreams := [demo_upstreams ! 1]\<rparr>, trace = []\<rparr>"
  have c: "clients (store ?w0) (''default'', ''web'') = Some demo_client"
    "clients (store ?w1) (''default'', ''web'') = Some demo_client"
    by (simp_all add: demo_store_def)
  have f: "StoreFault demo_env (Get ClientKind (''default'', ''web'')) = None"
    "StoreFault demo_env (ListAll UpstreamKind) = None"
    by (simp_all add: demo_env_def)
  have r: "fst (render demo_env demo_client [] w) =
      Inr (demo_config\<lparr>Rules := []\<rparr>, demo_configmap [])" for w
    by (simp add: model_defs demo_defs)
  have u0: "filter (\<lambda>U. SpecClient U = Name demo_client) (upstreams (store ?w0)) =
      [demo_upstreams ! 0, demo_upstreams ! 2]"
    by (simp add: demo_defs)
  have u1: "filter (\<lambda>U. SpecClient U = Name demo_client) (upstreams (store ?w1)) = []"
    by (simp add: demo_defs)
  note t0 = upstreams_filtered_by_name [OF c(1) f, of "Cancellable 1", unfolded u0]
  note t1 = upstreams_filtered_by_name [OF c(2) f, of "Cancellable 1", unfolded u1]
  have a: "fst (fetch demo_env (Cancellable 1) (''default'', ''web'') ?w0) =
     Inr (demo_client, [demo_upstreams ! 0, demo_upstreams ! 2])"
    using t0 by (rule conjunct1)
  have b: "fst (fetch demo_env (Cancellable 1) (''default'', ''web'') ?w1) =
     Inr (demo_client, [])"
    using t1 by (rule conjunct1)
  have "fst (fetch_and_render demo_env (Cancellable 1) (''default'', ''web'') ?w1) =
     (case fst (render demo_env demo_client []
                  (snd (fetch demo_env (Cancellable 1) (''default'', ''web'') ?w1))) of
        Inl err \<Rightarrow> Inl err
      | Inr (config, configmap) \<Rightarrow> Inr (demo_client, config, configmap))"
    using t1 by (rule conjunct2)
  then have c: "fst (fetch_and_render demo_env (Cancellable 1) (''default'', ''web'') ?w1) =
     Inr (demo_client, demo_config\<lparr>Rules := []\<rparr>, demo_configmap [])"
    by (simp add: r)
  from a b c show ?thesis by (intro conjI)
qed

text \<open>
  C3 as it is stated fails: the upstream \<^verbatim>\<open>other/db\<close> names the client \<^verbatim>\<open>web\<close>, and the
  pass for the declaration \<^verbatim>\<open>default/web\<close> takes it, although neither its reference read
  in its own namespace nor its \<^verbatim>\<open>Spec.Client\<close> alone is the identity \<^verbatim>\<open>default/web\<close>.
\<close>

theorem upstream_of_other_namespace_counterexample:
  "demo_upstreams ! 2 \<in>
     set (snd (projr (fst (fetch demo_env (Cancellable 1) (''default'', ''web'')
                             \<lparr>store = demo_store None None, trace = []\<rparr>)))) \<and>
   (Namespace (demo_upstreams ! 2), SpecClient (demo_upstreams ! 2))
     \<noteq> NamespacedName_of demo_client \<and>
   SpecClient (demo_upstreams ! 2) \<noteq> Namespace demo_client @ ''/'' @ Name demo_client"
  by (simp add: model_defs demo_defs)

text \<open>
  C4. Whenever the phase of the pod as the pass observed it is not Running, Reconcile
  returns no error and a requeue after ten seconds, right after the log line of the
  readiness check; no reload is called. Nothing is assumed of the stored and the rendered
  content: the outcome is the same whether they differ or not.
\<close>

theorem readiness_gate:
  assumes "fst (observe env ctx req w0) =
             Inr (client, config, configmap, createdConfigMap, pod, createdPod)"
      and "Phase (Status createdPod) \<noteq> PodRunning"
  shows "Reconcile env ctx req w0 =
           ((\<lparr>Requeue = False, RequeueAfter = 10 * Second\<rparr>, None),
            log_Info ''check pod running'' (snd (observe env ctx req w0))) \<and>
         reload_calls (trace (snd (Reconcile env ctx req w0))) = reload_calls (trace w0)"
proof -
  let ?w = "snd (observe env ctx req w0)"
  have obs: "observe env ctx req w0 =
      (Inr (client, config, configmap, createdConfigMap, pod, createdPod), ?w)"
    using assms(1) by (rule observe_pair)
  have r: "Reconcile env ctx req w0 =
           ((\<lparr>Requeue = False, RequeueAfter = 10 * Second\<rparr>, None),
            log_Info ''check pod running'' ?w)"
    using Reconcile_observed [OF obs] assms(2) by (simp add: check_and_reload_def)
  have "reload_calls (trace ?w) = reload_calls (trace w0)"
    by (rule observe_reloads)
  with r show ?thesis
    by (simp add: log_Info_simps reload_calls_append)
qed

theorem readiness_gate_witness:
  "fst (Reconcile demo_env (Cancellable 1) (''default'', ''web'')
          \<lparr>store = demo_store (Some (demo_configmap ''22'')) (Some (demo_pod ''Pending'' [])),
           trace = []\<rparr>)
     = (\<lparr>Requeue = False, RequeueAfter = 10 * Second\<rparr>, None) \<and>
   reload_calls (trace (snd (Reconcile demo_env (Cancellable 1) (''default'', ''web'')
          \<lparr>store = demo_store (Some (demo_configmap ''22'')) (Some (demo_pod ''Pending'' [])),
           trace = []\<rparr>))) = []"
proof -
  let ?w0 = "\<lparr>store = demo_store (Some (demo_configmap ''22''))
                               (Some (demo_pod ''Pending'' [])),
             trace = []\<rparr>"
  have obs: "fst (observe demo_env (Cancellable 1) (''default'', ''web'') ?w0) =
      Inr (demo_client, demo_config, demo_configmap ''225432'', demo_configmap ''22'',
           demo_pod [] [], demo_pod ''Pending'' [])"
    by (rule demo_observe_found)
  have ph: "Phase (Status (demo_pod ''Pending'' [])) \<noteq> PodRunning"
    by (simp add: demo_pod_def PodRunning_def)
  show ?thesis
    using readiness_gate [OF obs ph] by auto
qed

text \<open>
  C5. In a store that holds neither the config map nor the pod under the names the
  builders gave them (the declaration's, when the builders keep the name and namespace
  they are given), and that fails none of the four calls, a pass whose builders succeed
  does exactly this after rendering: Get and Create of the config map, Get and Create of
  the pod, the sleep, and only then the log line of the readiness check. Each object is
  created once, the config map first; the controller reference of each names the
  declaration; the pass ends with the ten-second requeue.
\<close>

theorem creation_on_absence:
  assumes "fst (fetch_and_render env ctx req w0) = Inr (client, config, configmap)"
      and "PodBuilder_Build env (Name client) (Namespace client) ''fatedier/frpc:v0.43.0''
             = Inr built"
      and "SetControllerReference client built (Scheme env) = Inr pod"
      and "configmaps (store w0) (NamespacedName_of configmap) = None"
      and "pods (store w0) (NamespacedName_of pod) = None"
      and "StoreFault env (Get ConfigMapKind (NamespacedName_of configmap)) = None"
      and "StoreFault env (Create (ConfigMapObject configmap)) = None"
      and "StoreFault env (Get PodKind (NamespacedName_of pod)) = None"
      and "StoreFault env (Create (PodObject pod)) = None"
  shows "trace (snd (Reconcile env ctx req w0)) =
           trace (snd (fetch_and_render env ctx req w0)) @
             [Log ''get config map'',
              Call TODO (Get ConfigMapKind (NamespacedName_of configmap)),
              Log ''create config map'',
              Call TODO (Create (ConfigMapObject configmap)),
              Log ''Build pod'', Log ''set reference pod'',
              Log ''get pod'',
              Call TODO (Get PodKind (NamespacedName_of pod)),
              Log ''create pod'',
              Call TODO (Create (PodObject pod)),
              Sleep (10 * Second),
              Log ''check pod running''] \<and>
         create_calls (trace (snd (Reconcile env ctx req w0))) =
           create_calls (trace w0) @ [ConfigMapObject configmap, PodObject pod] \<and>
         map_option (\<lambda>r. (RefName r, RefUID r, Controller r))
           (GetControllerOf (OwnerReferences configmap)) = Some (Name client, UID client, Some True) \<and>
         map_option (\<lambda>r. (RefName r, RefUID r, Controller r))
           (GetControllerOf (OwnerReferences pod)) = Some (Name client, UID client, Some True) \<and>
         fst (Reconcile env ctx req w0) = (\<lparr>Requeue = False, RequeueAfter = 10 * Second\<rparr>, None)"
proof -
  define w1 where "w1 = snd (fetch_and_render env ctx req w0)"
  have fr: "fetch_and_render env ctx req w0 = (Inr (client, config, configmap), w1)"
    unfolding w1_def using assms(1) by (rule fetch_and_render_pair)
  have s1: "store w1 = store w0" "create_calls (trace w1) = create_calls (trace w0)"
    unfolding w1_def by (rule fetch_and_render_effect)+
  define w2 where "w2 =
    \<lparr>store = (store w0)\<lparr>configmaps :=
                (configmaps (store w0))(NamespacedName_of configmap \<mapsto> configmap)\<rparr>,
     trace = trace w1 @ [Log ''get config map'',
                          Call TODO (Get ConfigMapKind (NamespacedName_of configmap)),
                          Log ''create config map'',
                          Call TODO (Create (ConfigMapObject configmap))]\<rparr>"
  have e2: "ensure_configmap env configmap w1 = (Inr zero_ConfigMap, w2)"
    using ensure_configmap_creates [of w1 configmap env] assms(4,6,7) s1(1)
    by (simp add: w2_def)
  define w3 where "w3 =
    \<lparr>store = store w2, trace = trace w2 @ [Log ''Build pod'', Log ''set reference pod'']\<rparr>"
  have e3: "build_pod env client w2 = (Inr pod, w3)"
    using build_pod_builds [OF assms(2,3)] by (simp add: w3_def)
  have p3: "pods (store w3) (NamespacedName_of pod) = None"
    using assms(5) by (simp add: w3_def w2_def)
  define w4 where "w4 =
    \<lparr>store = WhileSleeping env
                ((store w3)\<lparr>pods := (pods (store w3))(NamespacedName_of pod \<mapsto> pod)\<rparr>),
     trace = trace w3 @ [Log ''get pod'',
                         Call TODO (Get PodKind (NamespacedName_of pod)),
                         Log ''create pod'',
                         Call TODO (Create (PodObject pod)),
                         Sleep (10 * Second)]\<rparr>"
  have e4: "ensure_pod env pod w3 = (Inr zero_Pod, w4)"
    using ensure_pod_creates [OF p3 assms(8,9)] by (simp add: w4_def)
  have obs: "observe env ctx req w0 =
      (Inr (client, config, configmap, zero_ConfigMap, pod, zero_Pod), w4)"
    by (simp add: observe_def fr e2 e3 e4)
  have rc: "Reconcile env ctx req w0 =
      ((\<lparr>Requeue = False, RequeueAfter = 10 * Second\<rparr>, None),
       log_Info ''check pod running'' w4)"
    using Reconcile_observed [OF obs] zero_Pod_not_Running
    by (simp add: check_and_reload_def)
  have tr: "trace (snd (Reconcile env ctx req w0)) =
           trace w1 @
             [Log ''get config map'',
              Call TODO (Get ConfigMapKind (NamespacedName_of configmap)),
              Log ''create config map'',
              Call TODO (Create (ConfigMapObject configmap)),
              Log ''Build pod'', Log ''set reference pod'',
              Log ''get pod'',
              Call TODO (Get PodKind (NamespacedName_of pod)),
              Log ''create pod'',
              Call TODO (Create (PodObject pod)),
              Sleep (10 * Second),
              Log ''check pod running'']"
    by (simp add: rc log_Info_simps w4_def w3_def w2_def)
  have cr: "create_calls (trace (snd (Reconcile env ctx req w0))) =
           create_calls (trace w0) @ [ConfigMapObject configmap, PodObject pod]"
    by (simp add: tr create_calls_append s1(2))
  from fetch_and_render_owner [OF fr] obtain b where
    "SetControllerReference client b (Scheme env) = Inr configmap" by blast
  then have o1: "map_option (\<lambda>r. (RefName r, RefUID r, Controller r))
           (GetControllerOf (OwnerReferences configmap)) = Some (Name client, UID client, Some True)"
    by (rule controller_of_owner)
  have o2: "map_option (\<lambda>r. (RefName r, RefUID r, Controller r))
           (GetControllerOf (OwnerReferences pod)) = Some (Name client, UID client, Some True)"
    using assms(3) by (rule controller_of_owner)
  have rs: "fst (Reconcile env ctx req w0) =
      (\<lparr>Requeue = False, RequeueAfter = 10 * Second\<rparr>, None)"
    by (simp add: rc)
  show ?thesis using tr cr o1 o2 rs unfolding w1_def by (intro conjI)
qed

theorem creation_on_absence_witness:
  "trace (snd (Reconcile demo_env (Cancellable 1) (''default'', ''web'')
          \<lparr>store = demo_store None None, trace = []\<rparr>)) =
     [Log ''Start Client Reconciler'',
      Call (Cancellable 1) (Get ClientKind (''default'', ''web'')),
      Call (Cancellable 1) (ListAll UpstreamKind),
      Log ''Build configuration'', Log ''Build config map'', Log ''set reference config map'',
      Log ''get config map'',
      Call TODO (Get ConfigMapKind (''default'', ''web'')),
      Log ''create config map'',
      Call TODO (Create (ConfigMapObject (demo_configmap ''225432''))),
      Log ''Build pod'', Log ''set reference pod'',
      Log ''get pod'',
      Call TODO (Get PodKind (''default'', ''web'')),
      Log ''create pod'',
      Call TODO (Create (PodObject (demo_pod [] []))),
      Sleep (10 * Second),
      Log ''check pod running''] \<and>
   GetControllerOf (OwnerReferences (demo_configmap ''225432'')) = Some demo_ref \<and>
   GetControllerOf (OwnerReferences (demo_pod [] [])) = Some demo_ref \<and>
   fst (Reconcile demo_env (Cancellable 1) (''default'', ''web'')
          \<lparr>store = demo_store None None, trace = []\<rparr>)
     = (\<lparr>Requeue = False, RequeueAfter = 10 * Second\<rparr>, None)"
proof -
  let ?w0 = "\<lparr>store = demo_store None None, trace = []\<rparr>"
  have fr: "fst (fetch_and_render demo_env (Cancellable 1) (''default'', ''web'') ?w0) =
      Inr (demo_client, demo_config, demo_configmap ''225432'')"
    by (rule demo_fetch_and_render)
  have tr: "trace (snd (fetch_and_render demo_env (Cancellable 1) (''default'', ''web'') ?w0)) =
     [Log ''Start Client Reconciler'',
      Call (Cancellable 1) (Get ClientKind (''default'', ''web'')),
      Call (Cancellable 1) (ListAll UpstreamKind),
      Log ''Build configuration'', Log ''Build config map'', Log ''set reference config map'']"
    by (simp add: model_defs demo_defs)
  have pb: "PodBuilder_Build demo_env (Name demo_client) (Namespace demo_client)
      ''fatedier/frpc:v0.43.0'' =
      Inr \<lparr>Name = ''web'', Namespace = ''default'', UID = [], OwnerReferences = [],
           Image = ''fatedier/frpc:v0.43.0'', Status = \<lparr>Phase = [], PodIP = []\<rparr>\<rparr>"
    by (simp add: demo_defs)
  have sr: "SetControllerReference demo_client
      \<lparr>Name = ''web'', Namespace = ''default'', UID = [], OwnerReferences = [],
           Image = ''fatedier/frpc:v0.43.0'', Status = \<lparr>Phase = [], PodIP = []\<rparr>\<rparr>
      (Scheme demo_env) = Inr (demo_pod [] [])"
    by (simp add: model_defs demo_defs)
  have a: "configmaps (store ?w0) (NamespacedName_of (demo_configmap ''225432'')) = None"
    "pods (store ?w0) (NamespacedName_of (demo_pod [] [])) = None"
    by (simp_all add: demo_defs)
  have f: "StoreFault demo_env (Get ConfigMapKind (NamespacedName_of (demo_configmap ''225432''))) = None"
    "StoreFault demo_env (Create (ConfigMapObject (demo_configmap ''225432''))) = None"
    "StoreFault demo_env (Get PodKind (NamespacedName_of (demo_pod [] []))) = None"
    "StoreFault demo_env (Create (PodObject (demo_pod [] []))) = None"
    by (simp_all add: demo_env_def)
  have nn: "NamespacedName_of (demo_configmap ''225432'') = (''default'', ''web'')"
    "NamespacedName_of (demo_pod [] []) = (''default'', ''web'')"
    by (simp_all add: demo_configmap_def demo_pod_def NamespacedName_of_def)
  have g: "GetControllerOf (OwnerReferences (demo_configmap ''225432'')) = Some demo_ref"
    "GetControllerOf (OwnerReferences (demo_pod [] [])) = Some demo_ref"
    by (simp_all add: demo_configmap_def demo_pod_def GetControllerOf_def demo_ref_def)
  show ?thesis
    using creation_on_absence [OF fr pb sr a f, unfolded tr nn]
    by (simp add: g)
qed

text \<open>
  C6. When the config map found in the store has the content of the rendered one and the
  pod the pass observed is Running, the pass calls no reload and returns no error with
  the thirty-second requeue, right after the log line of the readiness check.
\<close>

theorem steady_state:
  assumes "fst (observe env ctx req w0) =
             Inr (client, config, configmap, createdConfigMap, pod, createdPod)"
      and "configmaps (store w0) (NamespacedName_of configmap) = Some stored"
      and "Data stored = Data configmap"
      and "Phase (Status createdPod) = PodRunning"
  shows "Reconcile env ctx req w0 =
           ((\<lparr>Requeue = False, RequeueAfter = 30 * Second\<rparr>, None),
            log_Info ''check pod running'' (snd (observe env ctx req w0))) \<and>
         reload_calls (trace (snd (Reconcile env ctx req w0))) = reload_calls (trace w0)"
proof -
  let ?w = "snd (observe env ctx req w0)"
  have obs: "observe env ctx req w0 =
      (Inr (client, config, configmap, createdConfigMap, pod, createdPod), ?w)"
    using assms(1) by (rule observe_pair)
  have cm: "createdConfigMap = stored"
    using observe_createdConfigMap [OF obs] assms(2) by simp
  have r: "Reconcile env ctx req w0 =
           ((\<lparr>Requeue = False, RequeueAfter = 30 * Second\<rparr>, None),
            log_Info ''check pod running'' ?w)"
    using Reconcile_observed [OF obs] cm assms(3,4) by (simp add: check_and_reload_def)
  have "reload_calls (trace ?w) = reload_calls (trace w0)"
    by (rule observe_reloads)
  with r show ?thesis
    by (simp add: log_Info_simps reload_calls_append)
qed

theorem steady_state_witness:
  "fst (Reconcile demo_env (Cancellable 1) (''default'', ''web'')
          \<lparr>store = demo_store (Some (demo_configmap ''225432''))
                               (Some (demo_pod ''Running'' ''10.0.0.7'')),
           trace = []\<rparr>)
     = (\<lparr>Requeue = False, RequeueAfter = 30 * Second\<rparr>, None) \<and>
   reload_calls (trace (snd (Reconcile demo_env (Cancellable 1) (''default'', ''web'')
          \<lparr>store = demo_store (Some (demo_configmap ''225432''))
                               (Some (demo_pod ''Running'' ''10.0.0.7'')),
           trace = []\<rparr>))) = []"
proof -
  let ?w0 = "\<lparr>store = demo_store (Some (demo_configmap ''225432''))
                               (Some (demo_pod ''Running'' ''10.0.0.7'')),
             trace = []\<rparr>"
  have obs: "fst (observe demo_env (Cancellable 1) (''default'', ''web'') ?w0) =
      Inr (demo_client, demo_config, demo_configmap ''225432'', demo_configmap ''225432'',
           demo_pod [] [], demo_pod ''Running'' ''10.0.0.7'')"
    by (rule demo_observe_found)
  have st: "configmaps (store ?w0) (NamespacedName_of (demo_configmap ''225432'')) =
      Some (demo_configmap ''225432'')"
    by (simp add: demo_defs NamespacedName_of_def)
  have ph: "Phase (Status (demo_pod ''Running'' ''10.0.0.7'')) = PodRunning"
    by (simp add: demo_pod_def PodRunning_def)
  show ?thesis
    using steady_state [OF obs st refl ph] by auto
qed

text \<open>
  C7. A config map that is in the store stays there with the same content through a pass
  (the pass only ever calls Get, List and Create, and the store refuses a Create over an
  existing object; the rest of the cluster is taken to leave config maps alone while the
  pass sleeps). When it is the config map of this declaration, it is what the pass holds
  in \<^verbatim>\<open>createdConfigMap\<close>, and the reload is called exactly when the pod observed is
  Running and the stored content differs from the rendered one.
\<close>

theorem existing_configmap_is_kept:
  assumes "configmaps (store w0) k = Some stored"
      and "\<forall>s. configmaps (WhileSleeping env s) = configmaps s"
  shows "configmaps (store (snd (Reconcile env ctx req w0))) k = Some stored \<and>
         (fst (observe env ctx req w0) =
            Inr (client, config, configmap, createdConfigMap, pod, createdPod) \<and>
          NamespacedName_of configmap = k \<longrightarrow>
            createdConfigMap = stored \<and>
            (reload_calls (trace (snd (Reconcile env ctx req w0))) \<noteq> reload_calls (trace w0))
              = (Phase (Status createdPod) = PodRunning \<and> Data stored \<noteq> Data configmap))"
proof (intro conjI impI)
  show "configmaps (store (snd (Reconcile env ctx req w0))) k = Some stored"
    using observe_keeps_configmap [OF assms] by (simp add: Reconcile_store)
next
  assume h: "fst (observe env ctx req w0) =
            Inr (client, config, configmap, createdConfigMap, pod, createdPod) \<and>
          NamespacedName_of configmap = k"
  define w where "w = snd (observe env ctx req w0)"
  have obs: "observe env ctx req w0 =
      (Inr (client, config, configmap, createdConfigMap, pod, createdPod), w)"
    unfolding w_def using h by (intro observe_pair) simp
  show cm: "createdConfigMap = stored"
    using observe_createdConfigMap [OF obs] assms(1) h by simp
  have rl: "reload_calls (trace w) = reload_calls (trace w0)"
    unfolding w_def by (rule observe_reloads)
  show "(reload_calls (trace (snd (Reconcile env ctx req w0))) \<noteq> reload_calls (trace w0))
              = (Phase (Status createdPod) = PodRunning \<and> Data stored \<noteq> Data configmap)"
    using check_and_reload_reloads [of env config configmap stored createdPod w]
    by (simp add: Reconcile_observed [OF obs] cm rl)
qed

theorem existing_configmap_is_kept_witness:
  "configmaps (store (snd (Reconcile demo_env (Cancellable 1) (''default'', ''web'')
          \<lparr>store = demo_store (Some (demo_configmap ''22''))
                               (Some (demo_pod ''Running'' ''10.0.0.7'')),
           trace = []\<rparr>))) (''default'', ''web'') = Some (demo_configmap ''22'') \<and>
   reload_calls (trace (snd (Reconcile demo_env (Cancellable 1) (''default'', ''web'')
          \<lparr>store = demo_store (Some (demo_configmap ''22''))
                               (Some (demo_pod ''Running'' ''10.0.0.7'')),
           trace = []\<rparr>))) \<noteq> []"
proof -
  let ?w0 = "\<lparr>store = demo_store (Some (demo_configmap ''22''))
                               (Some (demo_pod ''Running'' ''10.0.0.7'')),
             trace = []\<rparr>"
  have st: "configmaps (store ?w0) (''default'', ''web'') = Some (demo_configmap ''22'')"
    by (simp add: demo_store_def)
  have ws: "\<forall>s. configmaps (WhileSleeping demo_env s) = configmaps s"
    by (simp add: demo_env_def)
  have obs: "fst (observe demo_env (Cancellable 1) (''default'', ''web'') ?w0) =
      Inr (demo_client, demo_config, demo_configmap ''225432'', demo_configmap ''22'',
           demo_pod [] [], demo_pod ''Running'' ''10.0.0.7'')"
    by (rule demo_observe_found)
  have nn: "NamespacedName_of (demo_configmap ''225432'') = (''default'', ''web'')"
    by (simp add: demo_configmap_def NamespacedName_of_def)
  have "[''frpc.ini'' \<mapsto> ''22''] \<noteq> [''frpc.ini'' \<mapsto> ''225432'']"
    using map_upd_eqD1 by fastforce
  then have df: "Data (demo_configmap ''22'') \<noteq> Data (demo_configmap ''225432'')"
    by (simp add: demo_configmap_def)
  have ph: "Phase (Status (demo_pod ''Running'' ''10.0.0.7'')) = PodRunning"
    by (simp add: demo_pod_def PodRunning_def)
  show ?thesis
    using existing_configmap_is_kept [OF st ws, of "Cancellable 1" "(''default'', ''web'')"
        demo_client demo_config "demo_configmap ''225432''" "demo_configmap ''22''"
        "demo_pod [] []" "demo_pod ''Running'' ''10.0.0.7''"] obs nn df ph
    by simp
qed

text \<open>
  C8 fails on the code. The pass for \<^verbatim>\<open>default/web\<close> in a store without its config map and
  pod makes six store calls: the Get of the declaration and the List with the caller's
  context, the Get and Create of the config map and of the pod with \<^verbatim>\<open>context.TODO()\<close>.
\<close>

theorem store_calls_with_todo_context:
  "store_contexts (trace (snd (Reconcile demo_env (Cancellable 1) (''default'', ''web'')
          \<lparr>store = demo_store None None, trace = []\<rparr>))) =
     [Cancellable 1, Cancellable 1, TODO, TODO, TODO, TODO]"
  by (simp add: Reconcile_def check_and_reload_def PodRunning_def zero_Pod_def
        model_defs demo_defs)

text \<open>
  C9. On a pass that finds no config map and creates it, \<^verbatim>\<open>createdConfigMap\<close> is the zero
  value when the contents are compared. So with a pod observed Running and rendered data
  that is not nil (non-empty data in particular), the pass creates the config map, which
  the store then holds with the rendered content, and still calls the reload handler
  once, with the pod's IP as admin address.
\<close>

theorem created_configmap_is_reloaded:
  assumes "fst (observe env ctx req w0) =
             Inr (client, config, configmap, createdConfigMap, pod, createdPod)"
      and "configmaps (store w0) (NamespacedName_of configmap) = None"
      and "Phase (Status createdPod) = PodRunning"
      and "Data configmap \<noteq> None"
  shows "createdConfigMap = zero_ConfigMap \<and>
         create_calls (trace (snd (Reconcile env ctx req w0))) =
           create_calls (trace w0) @ [ConfigMapObject configmap] \<and>
         configmaps (store (snd (Reconcile env ctx req w0))) (NamespacedName_of configmap) =
           Some configmap \<and>
         reload_calls (trace (snd (Reconcile env ctx req w0))) =
           reload_calls (trace w0) @
             [config\<lparr>Common := (Common config)\<lparr>AdminAddress := PodIP (Status createdPod)\<rparr>\<rparr>]"
proof -
  let ?w = "snd (observe env ctx req w0)"
  have obs: "observe env ctx req w0 =
      (Inr (client, config, configmap, createdConfigMap, pod, createdPod), ?w)"
    using assms(1) by (rule observe_pair)
  have cm: "createdConfigMap = zero_ConfigMap"
    using observe_createdConfigMap [OF obs] assms(2) by simp
  have pod: "pods (store w0) (NamespacedName_of pod) = Some createdPod"
    using observe_createdPod [OF obs] assms(3) zero_Pod_not_Running
    by (cases "pods (store w0) (NamespacedName_of pod)") auto
  note w = observe_creates_configmap [OF obs assms(2) pod]
  have rl: "reload_calls (trace ?w) = reload_calls (trace w0)"
    by (rule observe_reloads)
  have rc: "Reconcile env ctx req w0 =
      check_and_reload env config configmap zero_ConfigMap createdPod ?w"
    using Reconcile_observed [OF obs] cm by simp
  have df: "Data zero_ConfigMap \<noteq> Data configmap"
    using assms(4) by (auto simp: zero_ConfigMap_def)
  show ?thesis
    using cm w rl df assms(3)
    by (simp add: rc check_and_reload_def Let_def log_Info_simps emit_simps reload_calls_append
          create_calls_append split: option.splits)
qed

theorem created_configmap_is_reloaded_witness:
  "create_calls (trace (snd (Reconcile demo_env (Cancellable 1) (''default'', ''web'')
          \<lparr>store = demo_store None (Some (demo_pod ''Running'' ''10.0.0.7'')),
           trace = []\<rparr>))) = [ConfigMapObject (demo_configmap ''225432'')] \<and>
   configmaps (store (snd (Reconcile demo_env (Cancellable 1) (''default'', ''web'')
          \<lparr>store = demo_store None (Some (demo_pod ''Running'' ''10.0.0.7'')),
           trace = []\<rparr>))) (''default'', ''web'') = Some (demo_configmap ''225432'') \<and>
   reload_calls (trace (snd (Reconcile demo_env (Cancellable 1) (''default'', ''web'')
          \<lparr>store = demo_store None (Some (demo_pod ''Running'' ''10.0.0.7'')),
           trace = []\<rparr>)))
     = [demo_config\<lparr>Common := (Common demo_config)\<lparr>AdminAddress := ''10.0.0.7''\<rparr>\<rparr>]"
proof -
  let ?w0 = "\<lparr>store = demo_store None (Some (demo_pod ''Running'' ''10.0.0.7'')),
             trace = []\<rparr>"
  have obs: "fst (observe demo_env (Cancellable 1) (''default'', ''web'') ?w0) =
      Inr (demo_client, demo_config, demo_configmap ''225432'', zero_ConfigMap,
           demo_pod [] [], demo_pod ''Running'' ''10.0.0.7'')"
    by (rule demo_observe_nocm)
  have st: "configmaps (store ?w0) (NamespacedName_of (demo_configmap ''225432'')) = None"
    by (simp add: demo_defs NamespacedName_of_def)
  have ph: "Phase (Status (demo_pod ''Running'' ''10.0.0.7'')) = PodRunning"
    by (simp add: demo_pod_def PodRunning_def)
  have da: "Data (demo_configmap ''225432'') \<noteq> None"
    by (simp add: demo_configmap_def)
  have nn: "NamespacedName_of (demo_configmap ''225432'') = (''default'', ''web'')"
    by (simp add: demo_configmap_def NamespacedName_of_def)
  show ?thesis
    using created_configmap_is_reloaded [OF obs st ph da]
    by (simp add: nn demo_pod_def)
qed

text \<open>
  C10. On a pass that finds no pod and creates it, \<^verbatim>\<open>createdPod\<close> is the zero value at the
  readiness check, whose phase is not Running: the pass creates the pod, sleeps ten
  seconds and returns no error with the ten-second requeue, without a reload call,
  whatever the cluster did to the store during the sleep.
\<close>

theorem created_pod_is_not_ready:
  assumes "fst (observe env ctx req w0) =
             Inr (client, config, configmap, createdConfigMap, pod, createdPod)"
      and "pods (store w0) (NamespacedName_of pod) = None"
  shows "createdPod = zero_Pod \<and>
         Phase (Status createdPod) = [] \<and>
         Phase (Status createdPod) \<noteq> PodRunning \<and>
         fst (Reconcile env ctx req w0) = (\<lparr>Requeue = False, RequeueAfter = 10 * Second\<rparr>, None) \<and>
         reload_calls (trace (snd (Reconcile env ctx req w0))) = reload_calls (trace w0) \<and>
         (\<exists>t. trace (snd (Reconcile env ctx req w0)) =
                t @ [Call TODO (Create (PodObject pod)), Sleep (10 * Second),
                     Log ''check pod running'']) \<and>
         store (snd (Reconcile env ctx req w0)) =
           WhileSleeping env
             ((case configmaps (store w0) (NamespacedName_of configmap) of
                 None \<Rightarrow> (store w0)\<lparr>configmaps :=
                             (configmaps (store w0))(NamespacedName_of configmap \<mapsto> configmap)\<rparr>
               | Some stored \<Rightarrow> store w0)
              \<lparr>pods := (pods (store w0))(NamespacedName_of pod \<mapsto> pod)\<rparr>)"
proof -
  let ?w = "snd (observe env ctx req w0)"
  have obs: "observe env ctx req w0 =
      (Inr (client, config, configmap, createdConfigMap, pod, createdPod), ?w)"
    using assms(1) by (rule observe_pair)
  have cp: "createdPod = zero_Pod"
    using observe_createdPod [OF obs] assms(2) by simp
  note w = observe_creates_pod [OF obs assms(2)]
  have rl: "reload_calls (trace ?w) = reload_calls (trace w0)"
    by (rule observe_reloads)
  have rc: "Reconcile env ctx req w0 =
           ((\<lparr>Requeue = False, RequeueAfter = 10 * Second\<rparr>, None),
            log_Info ''check pod running'' ?w)"
    using Reconcile_observed [OF obs] cp zero_Pod_not_Running
    by (simp add: check_and_reload_def)
  have ph: "Phase (Status zero_Pod) = []"
    by (simp add: zero_Pod_def)
  show ?thesis
    using cp ph zero_Pod_not_Running w(1,3) rl
    by (simp add: rc log_Info_simps reload_calls_append)
qed

theorem created_pod_is_not_ready_witness:
  "fst (Reconcile (demo_env\<lparr>WhileSleeping := demo_kubelet\<rparr>) (Cancellable 1) (''default'', ''web'')
          \<lparr>store = demo_store (Some (demo_configmap ''22'')) None, trace = []\<rparr>)
     = (\<lparr>Requeue = False, RequeueAfter = 10 * Second\<rparr>, None) \<and>
   reload_calls (trace (snd (Reconcile (demo_env\<lparr>WhileSleeping := demo_kubelet\<rparr>)
          (Cancellable 1) (''default'', ''web'')
          \<lparr>store = demo_store (Some (demo_configmap ''22'')) None, trace = []\<rparr>))) = [] \<and>
   pods (store (snd (Reconcile (demo_env\<lparr>WhileSleeping := demo_kubelet\<rparr>)
          (Cancellable 1) (''default'', ''web'')
          \<lparr>store = demo_store (Some (demo_configmap ''22'')) None, trace = []\<rparr>)))
      (''default'', ''web'') = Some (demo_pod ''Running'' ''10.0.0.7'')"
proof -
  let ?env = "demo_env\<lparr>WhileSleeping := demo_kubelet\<rparr>"
  let ?w0 = "\<lparr>store = demo_store (Some (demo_configmap ''22'')) None, trace = []\<rparr>"
  have obs: "fst (observe ?env (Cancellable 1) (''default'', ''web'') ?w0) =
      Inr (demo_client, demo_config, demo_configmap ''225432'', demo_configmap ''22'',
           demo_pod [] [], zero_Pod)"
    by (simp add: model_defs demo_defs)
  have st: "pods (store ?w0) (NamespacedName_of (demo_pod [] [])) = None"
    by (simp add: demo_defs NamespacedName_of_def)
  show ?thesis
    using created_pod_is_not_ready [OF obs st]
    by (simp add: demo_defs demo_kubelet_def NamespacedName_of_def)
qed

end
